theory Spec2Isabelle
  imports
    Complex_Main
    "HOL-Library.AList"
    "HOL-Library.Char_ord"
    "HOL-Library.List_Lexorder"
    "HOL-Library.Product_Lexorder"
    "HOL-Library.Word"
begin

section \<open>Ledger data model (sparket/validator/ledger/models.py)\<close>

text \<open>
  Python floats are modelled as reals: the operations that occur in the modelled code are
  comparison with zero, one division per metric and list arithmetic, and every statement
  below is about which operand feeds which result, not about rounding. Python's float
  truthiness \<open>if x\<close> is \<open>x \<noteq> 0\<close>.

  A record field whose name an earlier record already uses carries a prefix:
  \<open>m_\<close> in \<open>MinerMetrics\<close>, \<open>r_\<close> in \<open>MinerRosterEntry\<close>, \<open>sub_\<close> in
  \<open>SettledSubmissionEntry\<close>, \<open>o_\<close> in \<open>OutcomeEntry\<close>, \<open>rr_\<close> in \<open>RecomputeRecord\<close>, and
  the manifest of a window is \<open>cp_manifest\<close> or \<open>d_manifest\<close>.

  A \<open>datetime\<close> is the tuple of its calendar fields; all ledger timestamps are UTC and the
  time zone is not modelled. \<open>dt_less\<close> is Python's \<open><\<close> on such datetimes.
\<close>

record datetime =
  year :: nat
  month :: nat
  day :: nat
  hour :: nat
  minute :: nat
  second :: nat
  microsecond :: nat

definition dt_key :: "datetime \<Rightarrow> nat \<times> nat \<times> nat \<times> nat \<times> nat \<times> nat \<times> nat" where
  "dt_key t = (year t, month t, day t, hour t, minute t, second t, microsecond t)"

definition dt_less :: "datetime \<Rightarrow> datetime \<Rightarrow> bool" where
  "dt_less a b \<longleftrightarrow> dt_key a < dt_key b"

definition LEDGER_SCHEMA_VERSION :: int where
  "LEDGER_SCHEMA_VERSION = 1"

datatype RecomputeReasonCode =
  SDIO_FEED_ERROR | SDIO_OUTAGE | SCORING_BUG | DB_CORRUPTION | DB_MIGRATION
  | CONFIG_CHANGE | MANUAL_CORRECTION | SCHEDULED_RECALIBRATION

fun reason_code_value :: "RecomputeReasonCode \<Rightarrow> string" where
  "reason_code_value SDIO_FEED_ERROR = ''SDIO_FEED_ERROR''"
| "reason_code_value SDIO_OUTAGE = ''SDIO_OUTAGE''"
| "reason_code_value SCORING_BUG = ''SCORING_BUG''"
| "reason_code_value DB_CORRUPTION = ''DB_CORRUPTION''"
| "reason_code_value DB_MIGRATION = ''DB_MIGRATION''"
| "reason_code_value CONFIG_CHANGE = ''CONFIG_CHANGE''"
| "reason_code_value MANUAL_CORRECTION = ''MANUAL_CORRECTION''"
| "reason_code_value SCHEDULED_RECALIBRATION = ''SCHEDULED_RECALIBRATION''"

record RecomputeRecord =
  rr_epoch :: int
  previous_epoch :: int
  reason_code :: RecomputeReasonCode
  reason_detail :: string
  affected_event_ids :: "int list"
  severity :: string
  timestamp :: datetime
  code_version :: string

text \<open>The constraints pydantic enforces on a \<open>RecomputeRecord\<close> whenever one is constructed
  or loaded (\<open>min_length=1\<close> on \<open>reason_detail\<close> and \<open>code_version\<close>, the pattern on
  \<open>severity\<close>): every record that reaches the auditor through a store satisfies them.\<close>

definition valid_recompute_record :: "RecomputeRecord \<Rightarrow> bool" where
  "valid_recompute_record r \<longleftrightarrow>
     reason_detail r \<noteq> [] \<and> code_version r \<noteq> [] \<and>
     severity r \<in> {''correction'', ''bugfix'', ''recovery''}"

record LedgerManifest =
  schema_version :: int
  window_type :: string
  window_start :: datetime
  window_end :: datetime
  checkpoint_epoch :: int
  content_hashes :: "string \<rightharpoonup> string"
  primary_hotkey :: string
  signature :: string
  created_at :: datetime
  recompute_record :: "RecomputeRecord option"

record MetricAccumulator =
  ws :: real
  wt :: real

record AccumulatorEntry =
  miner_id :: int
  hotkey :: string
  uid :: int
  n_submissions :: int
  n_outcomes :: int
  brier :: MetricAccumulator
  fq :: MetricAccumulator
  pss :: MetricAccumulator
  es :: MetricAccumulator
  mes :: MetricAccumulator
  sos :: MetricAccumulator
  lead :: MetricAccumulator
  brier_mean :: real
  fq_raw :: real
  pss_mean :: real
  es_adj :: real
  mes_mean :: real
  sos_score :: real
  lead_score :: real
  cal_score :: real
  sharp_score :: real

record MinerMetrics =
  m_uid :: int
  m_hotkey :: string
  m_fq_raw :: real
  m_pss_mean :: real
  m_es_adj :: real
  m_mes_mean :: real
  m_cal_score :: real
  m_sharp_score :: real
  m_sos_score :: real
  m_lead_score :: real
  m_brier_mean :: real

record MinerRosterEntry =
  r_miner_id :: int
  r_uid :: int
  r_hotkey :: string
  active :: bool

text \<open>\<open>ScoringConfigSnapshot.params\<close> is a dict of dicts of numbers under the well-known keys
  \<open>dimension_weights\<close>, \<open>skill_score_weights\<close>, \<open>normalization\<close>, \<open>weight_emission\<close>.\<close>

record ScoringConfigSnapshot =
  params :: "(string \<times> (string \<times> real) list) list"

record ChainParamsSnapshot =
  burn_rate :: real
  burn_uid :: "int option"
  max_weight_limit :: real
  min_allowed_weights :: int
  n_neurons :: int

record CheckpointWindow =
  cp_manifest :: LedgerManifest
  roster :: "MinerRosterEntry list"
  accumulators :: "AccumulatorEntry list"
  scoring_config :: ScoringConfigSnapshot
  chain_params :: "ChainParamsSnapshot option"

record SettledSubmissionEntry =
  sub_miner_id :: int
  sub_market_id :: int
  side :: string
  imp_prob :: real
  sub_brier :: "real option"
  sub_pss :: "real option"
  sub_settled_at :: datetime

record OutcomeEntry =
  o_market_id :: int
  o_event_id :: int
  result :: "string option"
  score_home :: "real option"
  score_away :: "real option"
  o_settled_at :: datetime

record DeltaWindow =
  d_manifest :: LedgerManifest
  settled_submissions :: "SettledSubmissionEntry list"
  settled_outcomes :: "OutcomeEntry list"

text \<open>\<open>AccumulatorEntry.derive_means\<close> assigns seven fields of \<open>self\<close> in place; the model
  returns the updated entry.\<close>

definition derive_means :: "AccumulatorEntry \<Rightarrow> AccumulatorEntry" where
  "derive_means self =
     self\<lparr>brier_mean := (if wt (brier self) \<noteq> 0 then ws (brier self) / wt (brier self) else 0.0),
          fq_raw := (if wt (fq self) \<noteq> 0 then ws (fq self) / wt (fq self) else 0.0),
          pss_mean := (if wt (pss self) \<noteq> 0 then ws (pss self) / wt (pss self) else 0.0),
          es_adj := (if wt (es self) \<noteq> 0 then ws (es self) / wt (es self) else 0.0),
          mes_mean := (if wt (mes self) \<noteq> 0 then ws (mes self) / wt (mes self) else 0.5),
          sos_score := (if wt (sos self) \<noteq> 0 then ws (sos self) / wt (sos self) else 0.5),
          lead_score := (if wt (lead self) \<noteq> 0 then ws (lead self) / wt (lead self) else 0.5)\<rparr>"

text \<open>\<open>MinerMetrics.from_accumulator\<close> calls \<open>acc.derive_means()\<close> on its argument and then
  reads the fields of the mutated entry; the model returns the mutated argument together
  with the new \<open>MinerMetrics\<close>.\<close>

definition from_accumulator :: "AccumulatorEntry \<Rightarrow> AccumulatorEntry \<times> MinerMetrics" where
  "from_accumulator acc0 =
     (let acc = derive_means acc0 in
      (acc,
       \<lparr>m_uid = uid acc,
        m_hotkey = hotkey acc,
        m_fq_raw = fq_raw acc,
        m_pss_mean = pss_mean acc,
        m_es_adj = es_adj acc,
        m_mes_mean = mes_mean acc,
        m_cal_score = cal_score acc,
        m_sharp_score = sharp_score acc,
        m_sos_score = sos_score acc,
        m_lead_score = lead_score acc,
        m_brier_mean = brier_mean acc\<rparr>))"

text \<open>The invariant of the data model, as the specification words it: a derived mean equals
  \<open>ws / wt\<close> of its accumulator pair, or the per-metric fallback when \<open>wt = 0\<close>.\<close>

definition mean_of :: "real \<Rightarrow> MetricAccumulator \<Rightarrow> real \<Rightarrow> bool" where
  "mean_of fallback p v \<longleftrightarrow> (wt p \<noteq> 0 \<longrightarrow> v = ws p / wt p) \<and> (wt p = 0 \<longrightarrow> v = fallback)"

definition means_consistent :: "AccumulatorEntry \<Rightarrow> bool" where
  "means_consistent a \<longleftrightarrow>
     mean_of 0.0 (brier a) (brier_mean a) \<and>
     mean_of 0.0 (fq a) (fq_raw a) \<and>
     mean_of 0.0 (pss a) (pss_mean a) \<and>
     mean_of 0.0 (es a) (es_adj a) \<and>
     mean_of 0.5 (mes a) (mes_mean a) \<and>
     mean_of 0.5 (sos a) (sos_score a) \<and>
     mean_of 0.5 (lead a) (lead_score a)"

section \<open>Redaction (sparket/validator/ledger/redaction.py)\<close>

text \<open>The allowlists and the denylist are frozensets of field names.\<close>

definition SAFE_ACCUMULATOR_FIELDS :: "string set" where
  "SAFE_ACCUMULATOR_FIELDS =
     {''miner_id'', ''hotkey'', ''uid'', ''n_submissions'', ''n_outcomes'',
      ''brier'', ''fq'', ''pss'', ''es'', ''mes'', ''sos'', ''lead'',
      ''brier_mean'', ''fq_raw'', ''pss_mean'', ''es_adj'', ''mes_mean'',
      ''sos_score'', ''lead_score'', ''cal_score'', ''sharp_score''}"

definition SAFE_ROLLING_SCORE_FIELDS :: "string set" where
  "SAFE_ROLLING_SCORE_FIELDS =
     {''miner_id'', ''miner_hotkey'', ''uid'', ''n_submissions'', ''n_eff'',
      ''es_mean'', ''es_std'', ''es_adj'', ''mes_mean'', ''sos_mean'', ''pss_mean'',
      ''fq_raw'', ''brier_mean'', ''lead_ratio'', ''fq_score'', ''cal_score'',
      ''sharp_score'', ''edge_score'', ''mes_score'', ''sos_score'', ''lead_score'',
      ''forecast_dim'', ''econ_dim'', ''info_dim'', ''skill_score'', ''score_version'',
      ''as_of'', ''window_days'',
      ''brier_ws'', ''brier_wt'', ''fq_ws'', ''fq_wt'', ''pss_ws'', ''pss_wt'',
      ''es_ws'', ''es_wt'', ''mes_ws'', ''mes_wt'', ''sos_ws'', ''sos_wt'',
      ''lead_ws'', ''lead_wt''}"

definition SAFE_OUTCOME_FIELDS :: "string set" where
  "SAFE_OUTCOME_FIELDS =
     {''market_id'', ''event_id'', ''result'', ''score_home'', ''score_away'', ''settled_at''}"

definition SAFE_MINER_FIELDS :: "string set" where
  "SAFE_MINER_FIELDS = {''miner_id'', ''uid'', ''hotkey'', ''active''}"

definition SAFE_SETTLED_SUBMISSION_FIELDS :: "string set" where
  "SAFE_SETTLED_SUBMISSION_FIELDS =
     {''miner_id'', ''market_id'', ''side'', ''imp_prob'', ''brier'', ''pss'', ''settled_at''}"

definition TIER3_FIELD_PATTERNS :: "string set" where
  "TIER3_FIELD_PATTERNS =
     {''provider_quote'', ''odds_eu_close'', ''imp_prob_close'', ''imp_prob_norm_close'',
      ''ts_close'', ''raw'',
      ''ground_truth_snapshot'', ''ground_truth_closing'', ''sportsbook_bias'',
      ''close_odds_eu'', ''close_imp_prob'', ''close_imp_prob_norm'',
      ''clv_odds'', ''clv_prob'', ''cle'', ''minutes_to_close'', ''snapshot_prob'',
      ''snapshot_odds'',
      ''ext_ref'',
      ''odds_eu'', ''priced_at'', ''payload'', ''submitted_at''}"

text \<open>A row is a Python dict from field names to values: an association list in insertion
  order, whose values are \<open>None\<close> for Python's \<open>None\<close>. \<open>redact\<close> is the dict
  comprehension \<^verbatim>\<open>{k: v for k, v in row.items() if k in allowlist and v is not None}\<close>.\<close>

type_synonym 'v row = "(string \<times> 'v option) list"

definition redact :: "'v row \<Rightarrow> string set \<Rightarrow> 'v row" where
  "redact row allowlist = filter (\<lambda>(k, v). k \<in> allowlist \<and> v \<noteq> None) row"

definition contains_tier3 :: "'v row \<Rightarrow> bool" where
  "contains_tier3 row \<longleftrightarrow> set (map fst row) \<inter> TIER3_FIELD_PATTERNS \<noteq> {}"

section \<open>Signing and verification (sparket/validator/ledger/signer.py)\<close>

text \<open>
  Two collaborators are not part of the modelled sources and are parameters of the
  functions below:
  \<^item> \<open>compute_hash\<close> (sparket.validator.scoring.determinism), the canonical hash of a
    JSON document, applied to a \<open>hash_input\<close>: the dump of a manifest whose
    \<open>signature\<close> key has been popped, \<open>{"items": [...]}\<close> for a list section, or the dump of
    a model section;
  \<^item> the keypair of the wallet library: \<open>sign\<close> is \<open>wallet.hotkey.sign\<close>, returning the
    signature bytes, and \<open>keypair_verify hk msg sig\<close> is
    \<^verbatim>\<open>bt.Keypair(ss58_address=hk).verify(msg.encode(), sig)\<close> with every exception
    read as \<open>False\<close>, as the \<^verbatim>\<open>try/except\<close> of \<open>verify_manifest\<close> does.
\<close>

type_synonym byte = "8 word"

datatype section_data =
  Roster "MinerRosterEntry list"
  | Accumulators "AccumulatorEntry list"
  | ScoringConfig ScoringConfigSnapshot
  | SettledSubmissions "SettledSubmissionEntry list"
  | SettledOutcomes "OutcomeEntry list"

datatype hash_input =
  ManifestDump LedgerManifest
  | Items section_data
  | ModelDump section_data

text \<open>\<open>bytes.hex()\<close>: two lowercase hexadecimal digits per byte.\<close>

definition hexdigit :: "nat \<Rightarrow> char" where
  "hexdigit n = ''0123456789abcdef'' ! n"

definition hex_of_byte :: "byte \<Rightarrow> string" where
  "hex_of_byte b = [hexdigit (unat b div 16), hexdigit (unat b mod 16)]"

definition bytes_hex :: "byte list \<Rightarrow> string" where
  "bytes_hex bs = concat (map hex_of_byte bs)"

text \<open>\<open>bytes.fromhex\<close>: ASCII whitespace is skipped before each byte, a byte is two
  hexadecimal digits of either case, anything else is a \<open>ValueError\<close> (\<open>None\<close>).\<close>

definition digitvalue :: "char \<Rightarrow> nat option" where
  "digitvalue c =
     (let n = of_char c :: nat in
      if 48 \<le> n \<and> n \<le> 57 then Some (n - 48)
      else if 97 \<le> n \<and> n \<le> 102 then Some (n - 87)
      else if 65 \<le> n \<and> n \<le> 70 then Some (n - 55)
      else None)"

definition is_space :: "char \<Rightarrow> bool" where
  "is_space c \<longleftrightarrow> (let n = of_char c :: nat in n = 32 \<or> (9 \<le> n \<and> n \<le> 13))"

fun bytes_fromhex :: "string \<Rightarrow> byte list option" where
  "bytes_fromhex [] = Some []"
| "bytes_fromhex [c] = (if is_space c then Some [] else None)"
| "bytes_fromhex (c # d # cs) =
     (if is_space c then bytes_fromhex (d # cs)
      else (case (digitvalue c, digitvalue d) of
              (Some hi, Some lo) \<Rightarrow>
                (case bytes_fromhex cs of
                   None \<Rightarrow> None
                 | Some bs \<Rightarrow> Some (of_nat (16 * hi + lo) # bs))
            | _ \<Rightarrow> None))"

text \<open>\<open>_manifest_signing_payload\<close>: the dump of the manifest with the \<open>signature\<close> key popped
  is the manifest whose signature field is blank, so that \<open>compute_hash\<close> never sees the
  signature.\<close>

definition manifest_signing_payload :: "(hash_input \<Rightarrow> string) \<Rightarrow> LedgerManifest \<Rightarrow> string" where
  "manifest_signing_payload compute_hash manifest =
     compute_hash (ManifestDump (manifest\<lparr>signature := []\<rparr>))"

definition sign_manifest ::
  "(hash_input \<Rightarrow> string) \<Rightarrow> (string \<Rightarrow> byte list) \<Rightarrow> LedgerManifest \<Rightarrow> string" where
  "sign_manifest compute_hash sign manifest =
     (let payload_hash = manifest_signing_payload compute_hash manifest;
          sig_bytes = sign payload_hash
      in bytes_hex sig_bytes)"

definition verify_manifest ::
  "(hash_input \<Rightarrow> string) \<Rightarrow> (string \<Rightarrow> string \<Rightarrow> byte list \<Rightarrow> bool) \<Rightarrow>
     LedgerManifest \<Rightarrow> string \<Rightarrow> bool" where
  "verify_manifest compute_hash keypair_verify manifest hotkey_ss58 =
     (if signature manifest = [] then False
      else
        let payload_hash = manifest_signing_payload compute_hash manifest in
        case bytes_fromhex (signature manifest) of
          None \<Rightarrow> False
        | Some sig_bytes \<Rightarrow> keypair_verify hotkey_ss58 payload_hash sig_bytes)"

text \<open>\<open>compute_section_hash\<close>: a model is dumped, a list is wrapped as \<open>{"items": [...]}\<close>.\<close>

definition compute_section_hash :: "(hash_input \<Rightarrow> string) \<Rightarrow> section_data \<Rightarrow> string" where
  "compute_section_hash compute_hash data =
     (case data of
        ScoringConfig c \<Rightarrow> compute_hash (ModelDump data)
      | _ \<Rightarrow> compute_hash (Items data))"

section \<open>Manifest verifier (sparket/validator/auditor/verifier.py)\<close>

text \<open>The error messages of \<open>_verify\<close>, with the values the source formats into them.\<close>

datatype verify_error =
  SchemaVersionMismatch int int
  | PrimaryHotkeyMismatch string string
  | SignatureVerificationFailed
  | MissingContentHash string
  | ContentHashMismatch string string string
  | WindowTypeMismatch string string

record VerificationResult =
  valid :: bool
  errors :: "verify_error list"

datatype window = Checkpoint CheckpointWindow | Delta DeltaWindow

fun manifest :: "window \<Rightarrow> LedgerManifest" where
  "manifest (Checkpoint cp) = cp_manifest cp"
| "manifest (Delta d) = d_manifest d"

text \<open>The body of the loop over \<open>sections.items()\<close>.\<close>

definition check_section ::
  "(hash_input \<Rightarrow> string) \<Rightarrow> LedgerManifest \<Rightarrow> string \<times> section_data \<Rightarrow> verify_error list" where
  "check_section compute_hash m entry =
     (case entry of (section_name, data) \<Rightarrow>
        (case content_hashes m section_name of
           None \<Rightarrow> [MissingContentHash section_name]
         | Some expected \<Rightarrow>
             let actual = compute_section_hash compute_hash data in
             if actual \<noteq> expected
             then [ContentHashMismatch section_name (take 16 expected) (take 16 actual)]
             else []))"

text \<open>\<open>ManifestVerifier._verify\<close>; \<open>self_primary_hotkey\<close> is \<open>self.primary_hotkey\<close>.\<close>

definition verify ::
  "(hash_input \<Rightarrow> string) \<Rightarrow> (string \<Rightarrow> string \<Rightarrow> byte list \<Rightarrow> bool) \<Rightarrow> string \<Rightarrow>
     window \<Rightarrow> (string \<times> section_data) list \<Rightarrow> VerificationResult" where
  "verify compute_hash keypair_verify self_primary_hotkey window sections =
     (let m = manifest window;
          errors1 =
            (if schema_version m \<noteq> LEDGER_SCHEMA_VERSION
             then [SchemaVersionMismatch (schema_version m) LEDGER_SCHEMA_VERSION] else []);
          errors2 =
            (if primary_hotkey m \<noteq> self_primary_hotkey
             then [PrimaryHotkeyMismatch (primary_hotkey m) self_primary_hotkey] else []);
          errors3 =
            (if \<not> verify_manifest compute_hash keypair_verify m self_primary_hotkey
             then [SignatureVerificationFailed] else []);
          errors4 = concat (map (check_section compute_hash m) sections);
          expected_type = (case window of Checkpoint _ \<Rightarrow> ''checkpoint'' | Delta _ \<Rightarrow> ''delta'');
          errors5 =
            (if window_type m \<noteq> expected_type
             then [WindowTypeMismatch (window_type m) expected_type] else []);
          errors = errors1 @ errors2 @ errors3 @ errors4 @ errors5
      in \<lparr>valid = (length errors = 0), errors = errors\<rparr>)"

definition verify_checkpoint ::
  "(hash_input \<Rightarrow> string) \<Rightarrow> (string \<Rightarrow> string \<Rightarrow> byte list \<Rightarrow> bool) \<Rightarrow> string \<Rightarrow>
     CheckpointWindow \<Rightarrow> VerificationResult" where
  "verify_checkpoint compute_hash keypair_verify self_primary_hotkey cp =
     verify compute_hash keypair_verify self_primary_hotkey (Checkpoint cp)
       [(''roster'', Roster (roster cp)),
        (''accumulators'', Accumulators (accumulators cp)),
        (''scoring_config'', ScoringConfig (scoring_config cp))]"

definition verify_delta ::
  "(hash_input \<Rightarrow> string) \<Rightarrow> (string \<Rightarrow> string \<Rightarrow> byte list \<Rightarrow> bool) \<Rightarrow> string \<Rightarrow>
     DeltaWindow \<Rightarrow> VerificationResult" where
  "verify_delta compute_hash keypair_verify self_primary_hotkey delta =
     verify compute_hash keypair_verify self_primary_hotkey (Delta delta)
       [(''settled_submissions'', SettledSubmissions (settled_submissions delta)),
        (''settled_outcomes'', SettledOutcomes (settled_outcomes delta))]"

section \<open>Auditor ledger sync (sparket/validator/auditor/sync.py)\<close>

text \<open>
  \<open>LedgerSync\<close> is modelled by explicit state passing: a method takes the state and returns
  its result with the new state. What lies outside the state is a parameter:
  \<^item> \<open>now\<close> is the reading of \<open>time.time()\<close>, in seconds;
  \<^item> the \<open>LedgerStore\<close> the auditor reads from is the record of its three read operations;
    reading does not change the store.
  \<open>_save_state\<close> writes the state to disk and leaves the state in memory as it is; it has
  no counterpart here. The state keeps \<open>last_delta_ts\<close> parsed: the source stores the ISO
  string of a \<open>window_end\<close> and reads it back with \<open>fromisoformat\<close>, taking the empty and the
  unparsable string for \<open>None\<close>. The keys of \<open>accumulator\<close> are the miner ids, which the source
  turns into strings with \<open>str\<close>.
\<close>

record EpochChangeResult =
  status :: string
  reason :: string

record RecomputeHistoryEntry =
  h_epoch :: int
  h_timestamp :: real
  h_reason_code :: string
  h_reason_detail :: string

record BrierAcc =
  brier_ws :: real
  brier_wt :: real
  count :: nat

record LedgerStore =
  store_get_latest_checkpoint :: "CheckpointWindow option"
  store_list_deltas :: "int \<Rightarrow> datetime option \<Rightarrow> string list"
  store_get_delta :: "string \<Rightarrow> DeltaWindow option"

record LedgerSync =
  max_epoch_bumps_per_day :: int
  max_epoch_bumps_per_week :: int
  epoch :: int
  last_delta_id :: string
  last_delta_ts :: "datetime option"
  accumulator :: "int \<rightharpoonup> BrierAcc"
  recompute_history :: "RecomputeHistoryEntry list"
  latest_checkpoint :: "CheckpointWindow option"
  latest_deltas :: "DeltaWindow list"

text \<open>\<open>LedgerSync._handle_epoch_change\<close>. The warning logged for skipped epochs has no effect
  on state or result.\<close>

definition handle_epoch_change ::
  "real \<Rightarrow> CheckpointWindow \<Rightarrow> LedgerSync \<Rightarrow> EpochChangeResult \<times> LedgerSync" where
  "handle_epoch_change now cp self =
     (let new_epoch = checkpoint_epoch (cp_manifest cp);
          record = recompute_record (cp_manifest cp)
      in
      if (case record of Some r \<Rightarrow> reason_detail r = [] | None \<Rightarrow> False)
      then (\<lparr>status = ''rejected'', reason = ''empty_reason_detail''\<rparr>, self)
      else
        let recent_day = filter (\<lambda>e. now - h_timestamp e < 86400) (recompute_history self);
            recent_week = filter (\<lambda>e. now - h_timestamp e < 604800) (recompute_history self)
        in
        if int (length recent_day) \<ge> max_epoch_bumps_per_day self
        then (\<lparr>status = ''paused'', reason = ''RECOMPUTE_RATE_EXCEEDED_DAILY''\<rparr>, self)
        else if int (length recent_week) \<ge> max_epoch_bumps_per_week self
        then (\<lparr>status = ''paused'', reason = ''RECOMPUTE_RATE_EXCEEDED_WEEKLY''\<rparr>, self)
        else
          let self1 = self\<lparr>epoch := new_epoch, accumulator := Map.empty,
                           last_delta_id := [], last_delta_ts := None\<rparr>;
              self2 =
                (case record of
                   Some r \<Rightarrow>
                     self1\<lparr>recompute_history := recompute_history self1 @
                       [\<lparr>h_epoch = new_epoch, h_timestamp = now,
                         h_reason_code = reason_code_value (reason_code r),
                         h_reason_detail = reason_detail r\<rparr>]\<rparr>
                 | None \<Rightarrow> self1)
          in (\<lparr>status = ''accepted'', reason = []\<rparr>, self2))"

text \<open>\<open>LedgerSync._apply_delta\<close>: the loop over the settled submissions of a delta.\<close>

definition apply_submission ::
  "(int \<rightharpoonup> BrierAcc) \<Rightarrow> SettledSubmissionEntry \<Rightarrow> (int \<rightharpoonup> BrierAcc)" where
  "apply_submission accs sub =
     (let mid = sub_miner_id sub;
          acc = (case accs mid of
                   None \<Rightarrow> \<lparr>brier_ws = 0.0, brier_wt = 0.0, count = 0\<rparr>
                 | Some a \<Rightarrow> a);
          acc' = (case sub_brier sub of
                    Some b \<Rightarrow> \<lparr>brier_ws = brier_ws acc + b, brier_wt = brier_wt acc + 1.0,
                               count = count acc + 1\<rparr>
                  | None \<Rightarrow> acc)
      in accs(mid \<mapsto> acc'))"

definition apply_delta :: "DeltaWindow \<Rightarrow> LedgerSync \<Rightarrow> LedgerSync" where
  "apply_delta delta self =
     self\<lparr>accumulator := foldl apply_submission (accumulator self) (settled_submissions delta)\<rparr>"

text \<open>The body of the loop of \<open>sync_cycle\<close> over the new delta ids.\<close>

definition process_delta :: "LedgerStore \<Rightarrow> LedgerSync \<Rightarrow> string \<Rightarrow> LedgerSync" where
  "process_delta store self delta_id =
     (case store_get_delta store delta_id of
        None \<Rightarrow> self
      | Some delta \<Rightarrow>
          if checkpoint_epoch (d_manifest delta) \<noteq> epoch self then self
          else
            (apply_delta delta (self\<lparr>latest_deltas := latest_deltas self @ [delta]\<rparr>))
              \<lparr>last_delta_id := delta_id,
               last_delta_ts := Some (window_end (d_manifest delta))\<rparr>)"

text \<open>\<open>LedgerSync.sync_cycle\<close>: the result is the pair the source returns, with the state.\<close>

definition sync_cycle ::
  "real \<Rightarrow> LedgerStore \<Rightarrow> LedgerSync \<Rightarrow>
     (CheckpointWindow option \<times> DeltaWindow list) \<times> LedgerSync" where
  "sync_cycle now store self0 =
     (let self = self0\<lparr>latest_deltas := []\<rparr> in
      case store_get_latest_checkpoint store of
        None \<Rightarrow> ((None, []), self)
      | Some cp \<Rightarrow>
          let self = self\<lparr>latest_checkpoint := Some cp\<rparr>;
              cp_epoch = checkpoint_epoch (cp_manifest cp);
              (change_status, self) =
                (if cp_epoch \<noteq> epoch self
                 then (let (change_result, self') = handle_epoch_change now cp self
                       in (status change_result, self'))
                 else (''accepted'', self))
          in
          if change_status = ''rejected'' then ((Some cp, []), self)
          else if change_status = ''paused'' then ((Some cp, []), self)
          else
            let since = last_delta_ts self;
                delta_ids = store_list_deltas store (epoch self) since;
                new_ids = (if last_delta_id self \<noteq> []
                           then filter (\<lambda>d. d > last_delta_id self) delta_ids
                           else delta_ids);
                self = foldl (process_delta store) self new_ids
            in ((Some cp, latest_deltas self), self))"

text \<open>\<open>LedgerSync.get_miner_metrics\<close>: \<open>from_accumulator\<close> runs on every accumulator entry of
  the latest checkpoint, which mutates the entries held by the checkpoint.\<close>

definition get_miner_metrics :: "LedgerSync \<Rightarrow> MinerMetrics list \<times> LedgerSync" where
  "get_miner_metrics self =
     (case latest_checkpoint self of
        None \<Rightarrow> ([], self)
      | Some cp \<Rightarrow>
          (map (\<lambda>acc. snd (from_accumulator acc)) (accumulators cp),
           self\<lparr>latest_checkpoint :=
             Some (cp\<lparr>accumulators := map (\<lambda>acc. fst (from_accumulator acc)) (accumulators cp)\<rparr>)\<rparr>))"

section \<open>Auditor runtime (sparket/validator/auditor/runtime.py)\<close>

text \<open>\<open>AuditorRuntime._cycle\<close>, up to the call of the plugin dispatcher: the result is the
  context handed to \<open>registry.dispatch\<close>, or \<open>None\<close> when the cycle returns before dispatching.
  Of the \<open>AuditorContext\<close> the ledger fields are kept; wallet, subtensor, metagraph and
  config are collaborators.\<close>

record AuditorContext =
  ctx_checkpoint :: CheckpointWindow
  ctx_deltas :: "DeltaWindow list"
  accumulator_state :: "int \<rightharpoonup> BrierAcc"

definition cycle ::
  "(hash_input \<Rightarrow> string) \<Rightarrow> (string \<Rightarrow> string \<Rightarrow> byte list \<Rightarrow> bool) \<Rightarrow> string \<Rightarrow>
     real \<Rightarrow> LedgerStore \<Rightarrow> LedgerSync \<Rightarrow> AuditorContext option \<times> LedgerSync" where
  "cycle compute_hash keypair_verify verifier_hotkey now store sync =
     (let ((cp, deltas), sync') = sync_cycle now store sync in
      case cp of
        None \<Rightarrow> (None, sync')
      | Some c \<Rightarrow>
          if \<not> valid (verify_checkpoint compute_hash keypair_verify verifier_hotkey c)
          then (None, sync')
          else
            let verified_deltas =
                  filter (\<lambda>delta. valid (verify_delta compute_hash keypair_verify
                                            verifier_hotkey delta)) deltas
            in (Some \<lparr>ctx_checkpoint = c, ctx_deltas = verified_deltas,
                      accumulator_state = accumulator sync'\<rparr>, sync'))"

text \<open>The number of recompute-history entries inside the rolling window of \<open>secs\<close> seconds
  that ends at \<open>now\<close>, as the rate policy counts them.\<close>

definition bumps_within :: "real \<Rightarrow> real \<Rightarrow> LedgerSync \<Rightarrow> int" where
  "bumps_within now secs self =
     int (length (filter (\<lambda>e. now - h_timestamp e < secs) (recompute_history self)))"

section \<open>Filesystem store (sparket/validator/ledger/store/filesystem.py)\<close>

text \<open>
  The store keeps one directory per window. A directory tree is an association list from
  entry names to contents, in the arbitrary order of \<open>iterdir\<close>; writing a window replaces the
  entry of its name or adds one (\<open>AList.update\<close>). What a window directory holds is the
  window that \<open>_load_checkpoint\<close> or \<open>_load_delta\<close> reads back from it. Strings compare as in
  Python, lexicographically by character code.

  \<open>strftime\<close> is \<^verbatim>\<open>strftime("%Y%m%dT%H%M%S")\<close>: year, month, day, \<open>T\<close>, hour, minute,
  second, each zero-padded to its width (the C library leaves years before 1000 unpadded;
  statements about widths below ask for years from 1000 on). \<open>str_int\<close> is Python's \<open>str\<close> on
  an integer, which an f-string applies to \<open>epoch\<close>.
\<close>

definition digit_char :: "nat \<Rightarrow> char" where
  "digit_char n = ''0123456789'' ! n"

definition two_digits :: "nat \<Rightarrow> string" where
  "two_digits n = [digit_char (n div 10 mod 10), digit_char (n mod 10)]"

definition four_digits :: "nat \<Rightarrow> string" where
  "four_digits n =
     [digit_char (n div 1000 mod 10), digit_char (n div 100 mod 10),
      digit_char (n div 10 mod 10), digit_char (n mod 10)]"

definition strftime :: "datetime \<Rightarrow> string" where
  "strftime t =
     four_digits (year t) @ two_digits (month t) @ two_digits (day t) @ ''T'' @
     two_digits (hour t) @ two_digits (minute t) @ two_digits (second t)"

text \<open>A datetime whose fields are in the ranges of Python's \<open>datetime\<close>, from the year
  1000 on; \<open>to_second\<close> is the datetime truncated to the second, ordered as a tuple.\<close>

definition valid_datetime :: "datetime \<Rightarrow> bool" where
  "valid_datetime t \<longleftrightarrow>
     1000 \<le> year t \<and> year t \<le> 9999 \<and> 1 \<le> month t \<and> month t \<le> 12 \<and>
     1 \<le> day t \<and> day t \<le> 31 \<and> hour t < 24 \<and> minute t < 60 \<and> second t < 60 \<and>
     microsecond t < 1000000"

definition to_second :: "datetime \<Rightarrow> nat \<times> nat \<times> nat \<times> nat \<times> nat \<times> nat" where
  "to_second t = (year t, month t, day t, hour t, minute t, second t)"

fun str_nat :: "nat \<Rightarrow> string" where
  "str_nat n = (if n < 10 then [digit_char n] else str_nat (n div 10) @ [digit_char (n mod 10)])"

declare str_nat.simps [simp del]

definition str_int :: "int \<Rightarrow> string" where
  "str_int i = (if i < 0 then CHR ''-'' # str_nat (nat (- i)) else str_nat (nat i))"

text \<open>\<open>split_first s\<close> cuts \<open>s\<close> at its first underscore. \<open>name.split("_", 2)\<close> has a third
  part \<open>parts[2]\<close> exactly when two underscores occur: it is what follows the second.
  \<open>name.split("_")\<close> has a second part \<open>parts[1]\<close> exactly when an underscore occurs: it
  runs from the first underscore to the second, or to the end.\<close>

fun split_first :: "string \<Rightarrow> (string \<times> string) option" where
  "split_first [] = None"
| "split_first (c # cs) =
     (if c = CHR ''_'' then Some ([], cs)
      else (case split_first cs of None \<Rightarrow> None | Some (a, b) \<Rightarrow> Some (c # a, b)))"

definition checkpoint_parts2 :: "string \<Rightarrow> string option" where
  "checkpoint_parts2 name =
     (case split_first name of
        None \<Rightarrow> None
      | Some (p0, rest) \<Rightarrow>
          (case split_first rest of None \<Rightarrow> None | Some (p1, p2) \<Rightarrow> Some p2))"

definition delta_parts1 :: "string \<Rightarrow> string option" where
  "delta_parts1 name =
     (case split_first name of
        None \<Rightarrow> None
      | Some (p0, rest) \<Rightarrow>
          (case split_first rest of None \<Rightarrow> Some rest | Some (p1, p2) \<Rightarrow> Some p1))"

record FilesystemStore =
  checkpoints_dir :: "(string \<times> CheckpointWindow) list"
  deltas_dir :: "(string \<times> (string \<times> DeltaWindow) list) list"

text \<open>\<open>FilesystemStore._prune\<close>. The cutoff is \<open>datetime.now(timezone.utc)\<close> minus the retention
  period, a reading of the clock: it is the parameter \<open>cutoff\<close> of the writing operations.\<close>

definition prune :: "datetime \<Rightarrow> FilesystemStore \<Rightarrow> FilesystemStore" where
  "prune cutoff self =
     (let cutoff_str = strftime cutoff;
          keep_cp = (\<lambda>(name, cp).
            \<not> (case checkpoint_parts2 name of Some p2 \<Rightarrow> p2 < cutoff_str | None \<Rightarrow> False));
          keep_delta = (\<lambda>(name, d).
            \<not> (case delta_parts1 name of Some p1 \<Rightarrow> p1 < cutoff_str | None \<Rightarrow> False));
          pruned = map (\<lambda>(epoch_name, ds). (epoch_name, filter keep_delta ds)) (deltas_dir self)
      in self\<lparr>checkpoints_dir := filter keep_cp (checkpoints_dir self),
              deltas_dir := filter (\<lambda>(epoch_name, ds). ds \<noteq> []) pruned\<rparr>)"

definition checkpoint_id :: "CheckpointWindow \<Rightarrow> string" where
  "checkpoint_id cp =
     ''epoch_'' @ str_int (checkpoint_epoch (cp_manifest cp)) @ ''_'' @
     strftime (window_end (cp_manifest cp))"

definition delta_id :: "DeltaWindow \<Rightarrow> string" where
  "delta_id delta =
     ''d_'' @ strftime (window_start (d_manifest delta)) @ ''_'' @
     strftime (window_end (d_manifest delta))"

definition epoch_dir_name :: "int \<Rightarrow> string" where
  "epoch_dir_name e = ''epoch_'' @ str_int e"

text \<open>\<open>put_checkpoint\<close> writes the manifest, the accumulators, the roster and the config, and
  \<open>chain_params.json\<close> only when the checkpoint has chain parameters: a file of that name left
  by an earlier checkpoint of the same id stays and is read back.\<close>

definition put_checkpoint ::
  "datetime \<Rightarrow> CheckpointWindow \<Rightarrow> FilesystemStore \<Rightarrow> string \<times> FilesystemStore" where
  "put_checkpoint cutoff cp self =
     (let cp_id = checkpoint_id cp;
          written =
            (case chain_params cp of
               Some c \<Rightarrow> cp
             | None \<Rightarrow>
                 (case map_of (checkpoints_dir self) cp_id of
                    Some old \<Rightarrow> cp\<lparr>chain_params := chain_params old\<rparr>
                  | None \<Rightarrow> cp));
          self' = self\<lparr>checkpoints_dir := AList.update cp_id written (checkpoints_dir self)\<rparr>
      in (cp_id, prune cutoff self'))"

definition put_delta ::
  "datetime \<Rightarrow> DeltaWindow \<Rightarrow> FilesystemStore \<Rightarrow> string \<times> FilesystemStore" where
  "put_delta cutoff delta self =
     (let did = delta_id delta;
          dir_name = epoch_dir_name (checkpoint_epoch (d_manifest delta));
          epoch_dir = (case map_of (deltas_dir self) dir_name of Some ds \<Rightarrow> ds | None \<Rightarrow> []);
          self' = self\<lparr>deltas_dir :=
                    AList.update dir_name (AList.update did delta epoch_dir) (deltas_dir self)\<rparr>
      in (did, prune cutoff self'))"

text \<open>\<open>get_latest_checkpoint\<close>: the directories sorted in reverse, the first that has a
  manifest is loaded. Every directory that \<open>put_checkpoint\<close> wrote has one.\<close>

definition get_latest_checkpoint :: "FilesystemStore \<Rightarrow> CheckpointWindow option" where
  "get_latest_checkpoint self =
     (case rev (sort (map fst (checkpoints_dir self))) of
        [] \<Rightarrow> None
      | cp_dir # _ \<Rightarrow> map_of (checkpoints_dir self) cp_dir)"

definition list_deltas :: "FilesystemStore \<Rightarrow> int \<Rightarrow> datetime option \<Rightarrow> string list" where
  "list_deltas self e since =
     (case map_of (deltas_dir self) (epoch_dir_name e) of
        None \<Rightarrow> []
      | Some epoch_dir \<Rightarrow>
          let delta_ids = sort (map fst epoch_dir) in
          (case since of
             None \<Rightarrow> delta_ids
           | Some s \<Rightarrow>
               let since_str = strftime s in
               filter (\<lambda>d. d > ''d_'' @ since_str) delta_ids))"

text \<open>\<open>get_delta\<close> scans the epoch directories in the order \<open>iterdir\<close> yields them and loads
  the first delta of that id. That order is the file system's, not the order of writing: it
  is the parameter \<open>iterdir\<close>, which rearranges the entries of the delta tree.\<close>

type_synonym delta_tree = "(string \<times> (string \<times> DeltaWindow) list) list"

definition get_delta ::
  "(delta_tree \<Rightarrow> delta_tree) \<Rightarrow> FilesystemStore \<Rightarrow> string \<Rightarrow> DeltaWindow option" where
  "get_delta iterdir self did =
     (case List.map_filter (\<lambda>(epoch_name, ds). map_of ds did) (iterdir (deltas_dir self)) of
        [] \<Rightarrow> None
      | d # _ \<Rightarrow> Some d)"

definition empty_store :: FilesystemStore where
  "empty_store = \<lparr>checkpoints_dir = [], deltas_dir = []\<rparr>"

text \<open>The store as the auditor's \<open>LedgerStore\<close>.\<close>

definition as_ledger_store :: "(delta_tree \<Rightarrow> delta_tree) \<Rightarrow> FilesystemStore \<Rightarrow> LedgerStore" where
  "as_ledger_store iterdir self =
     \<lparr>store_get_latest_checkpoint = get_latest_checkpoint self,
      store_list_deltas = list_deltas self,
      store_get_delta = get_delta iterdir self\<rparr>"

text \<open>The deltas a store holds, and the shape of a delta tree that only \<open>put_delta\<close> has
  written to: names are unique within a directory, a delta lies under the id \<open>put_delta\<close>
  gives it in the directory of its epoch, and its window starts at a valid datetime.\<close>

definition stored_deltas :: "FilesystemStore \<Rightarrow> DeltaWindow list" where
  "stored_deltas self = concat (map (\<lambda>(epoch_name, ds). map snd ds) (deltas_dir self))"

definition delta_entry_ok :: "string \<Rightarrow> string \<times> DeltaWindow \<Rightarrow> bool" where
  "delta_entry_ok epoch_name entry \<longleftrightarrow>
     fst entry = delta_id (snd entry) \<and>
     epoch_name = epoch_dir_name (checkpoint_epoch (d_manifest (snd entry))) \<and>
     valid_datetime (window_start (d_manifest (snd entry)))"

definition store_wf :: "FilesystemStore \<Rightarrow> bool" where
  "store_wf self \<longleftrightarrow>
     distinct (map fst (deltas_dir self)) \<and>
     list_all (\<lambda>(epoch_name, ds).
        distinct (map fst ds) \<and> list_all (delta_entry_ok epoch_name) ds) (deltas_dir self)"

section \<open>Weight computation (sparket/validator/ledger/compute_weights.py)\<close>

text \<open>
  numpy arrays are lists and their elements are reals, as everywhere in this theory: the
  rounding of \<open>float32\<close> and \<open>float64\<close> arithmetic is not modelled, nor are \<open>NaN\<close> and the
  infinities, so that \<open>np.nan_to_num\<close> is the identity and \<open>np.isnan(norm)\<close> is false. The
  two normalisers \<open>normalize_zscore_logistic\<close> and \<open>normalize_percentile\<close> belong to a module
  that is not among the modelled sources
  (sparket.validator.scoring.aggregation.normalization); they are parameters of
  \<open>compute_weights\<close>. Element-wise operations pair the elements of their operands, and the
  normalisers are expected to keep the length of their argument.
\<close>

datatype py_error = ValueError

record WeightResult =
  uids :: "int list"
  uint16_weights :: "int list"
  skill_scores :: "(int \<times> real) list"
  raw_weights :: "(int \<times> real) list"
  dimension_scores :: "(int \<times> (string \<times> real) list) list"

definition U16_MAX :: int where
  "U16_MAX = 65535"

text \<open>Python's \<open>round\<close> on a float: to the nearest integer, a tie to the even one.\<close>

definition py_round :: "real \<Rightarrow> int" where
  "py_round x =
     (let f = \<lfloor>x\<rfloor>; d = x - of_int f in
      if d < 1 / 2 then f
      else if 1 / 2 < d then f + 1
      else if even f then f else f + 1)"

text \<open>\<open>xs[i]\<close> for a Python index that may be negative and is in range.\<close>

definition py_index :: "'a list \<Rightarrow> int \<Rightarrow> 'a" where
  "py_index xs i = (if i < 0 then xs ! nat (int (length xs) + i) else xs ! nat i)"

definition cumsum :: "real list \<Rightarrow> real list" where
  "cumsum xs = map (\<lambda>i. sum_list (take (Suc i) xs)) [0..<length xs]"

definition normalize_max_weight :: "real list \<Rightarrow> real \<Rightarrow> real list" where
  "normalize_max_weight x limit =
     (let epsilon = 1 / 10000000;
          weights = x;
          values = sort weights
      in
      if sum_list x = 0 \<or> real (length x) * limit \<le> 1
      then map (\<lambda>w. 1 / real (length x)) x
      else
        let estimation = map (\<lambda>v. v / sum_list values) values in
        if Max (set estimation) \<le> limit
        then map (\<lambda>w. w / sum_list weights) weights
        else
          let cs = cumsum estimation;
              estimation_sum =
                map (\<lambda>i. real (length values - i - 1) * estimation ! i) [0..<length values];
              n_values =
                length (filter (\<lambda>i. estimation ! i / (estimation_sum ! i + cs ! i + epsilon) < limit)
                  [0..<length values]);
              cutoff_scale =
                (limit * py_index cs (int n_values - 1) - epsilon) /
                (1 - limit * real (length estimation - n_values));
              cutoff = cutoff_scale * sum_list values;
              capped = map (\<lambda>w. if w > cutoff then cutoff else w) weights
          in map (\<lambda>w. w / sum_list capped) capped)"

definition convert_to_uint16 :: "int list \<Rightarrow> real list \<Rightarrow> int list \<times> int list" where
  "convert_to_uint16 uid_array weights =
     (let nz = filter (\<lambda>(u, w). w > 0) (zip uid_array weights);
          nz_weights = map snd nz;
          nz_uids = map fst nz
      in
      if length nz_weights = 0 then ([], [])
      else
        let max_weight = Max (set nz_weights) in
        if max_weight = 0 then ([], [])
        else
          let scaled = map (\<lambda>w. w / max_weight) nz_weights;
              emitted = filter (\<lambda>(u, v). v \<noteq> 0)
                          (map (\<lambda>(u, w). (u, py_round (w * real_of_int U16_MAX))) (zip nz_uids scaled))
          in (map fst emitted, map snd emitted))"

text \<open>\<open>params.get(section, {}).get(key, default)\<close>.\<close>

definition cfg_get :: "ScoringConfigSnapshot \<Rightarrow> string \<Rightarrow> string \<Rightarrow> real \<Rightarrow> real" where
  "cfg_get cfg sect key dflt =
     (case map_of (params cfg) sect of
        None \<Rightarrow> dflt
      | Some d \<Rightarrow> (case map_of d key of None \<Rightarrow> dflt | Some v \<Rightarrow> v))"

definition clip :: "real \<Rightarrow> real \<Rightarrow> real \<Rightarrow> real" where
  "clip x lo hi = min hi (max lo x)"

text \<open>Steps 1 to 3 on the metrics sorted by uid: per miner the skill score with the four
  dimension scores \<open>forecast_dim\<close>, \<open>skill_dim\<close>, \<open>econ_dim\<close>, \<open>info_dim\<close>.\<close>

definition skill_table ::
  "(real list \<Rightarrow> real list) \<Rightarrow> (real list \<Rightarrow> real list) \<Rightarrow> MinerMetrics list \<Rightarrow>
     ScoringConfigSnapshot \<Rightarrow> (real \<times> real \<times> real \<times> real \<times> real) list" where
  "skill_table normalize_zscore_logistic normalize_percentile sorted_metrics cfg =
     (let w_fq = cfg_get cfg ''dimension_weights'' ''w_fq'' 0.6;
          w_cal = cfg_get cfg ''dimension_weights'' ''w_cal'' 0.4;
          w_edge = cfg_get cfg ''dimension_weights'' ''w_edge'' 0.7;
          w_mes = cfg_get cfg ''dimension_weights'' ''w_mes'' 0.3;
          w_sos = cfg_get cfg ''dimension_weights'' ''w_sos'' 0.6;
          w_lead = cfg_get cfg ''dimension_weights'' ''w_lead'' 0.4;
          w_outcome_accuracy = cfg_get cfg ''skill_score_weights'' ''w_outcome_accuracy'' 0.10;
          w_outcome_relative = cfg_get cfg ''skill_score_weights'' ''w_outcome_relative'' 0.10;
          w_odds_edge = cfg_get cfg ''skill_score_weights'' ''w_odds_edge'' 0.50;
          w_info_adv = cfg_get cfg ''skill_score_weights'' ''w_info_adv'' 0.30;
          min_count = (let v = cfg_get cfg ''normalization'' ''min_count_for_zscore'' 10
                       in if v < 0 then \<lceil>v\<rceil> else \<lfloor>v\<rfloor>);
          n_miners = length sorted_metrics;
          fq_norm = map (\<lambda>m. clip ((m_fq_raw m + 1) / 2) 0 1) sorted_metrics;
          use_zscore = (int n_miners \<ge> min_count);
          pss_norm = (if use_zscore then normalize_zscore_logistic else normalize_percentile)
                       (map m_pss_mean sorted_metrics);
          es_norm = (if use_zscore then normalize_zscore_logistic else normalize_percentile)
                      (map m_es_adj sorted_metrics);
          cal_norm = map (\<lambda>m. clip (m_cal_score m) 0 1) sorted_metrics;
          mes_norm = map (\<lambda>m. clip (m_mes_mean m) 0 1) sorted_metrics;
          sos_norm = map (\<lambda>m. clip (m_sos_score m) 0 1) sorted_metrics;
          lead_norm = map (\<lambda>m. clip (m_lead_score m) 0 1) sorted_metrics;
          forecast_dim = map2 (\<lambda>a b. w_fq * a + w_cal * b) fq_norm cal_norm;
          skill_dim = pss_norm;
          econ_dim = map2 (\<lambda>a b. w_edge * a + w_mes * b) es_norm mes_norm;
          info_dim = map2 (\<lambda>a b. w_sos * a + w_lead * b) sos_norm lead_norm
      in map (\<lambda>(f, s, e, i).
                (w_outcome_accuracy * f + w_outcome_relative * s + w_odds_edge * e + w_info_adv * i,
                 f, s, e, i))
           (zip forecast_dim (zip skill_dim (zip econ_dim info_dim))))"

text \<open>Step 4: the skill scores scattered into a vector indexed by uid; a uid outside
  \<open>[0, n_neurons)\<close> is skipped and a later entry of the same uid overwrites an earlier.\<close>

definition scatter_scores :: "nat \<Rightarrow> (int \<times> real) list \<Rightarrow> real list" where
  "scatter_scores n scored =
     foldl (\<lambda>scores (u, s). if 0 \<le> u \<and> u < int n then scores[nat u := s] else scores)
       (replicate n 0) scored"

definition scores_vector ::
  "(real list \<Rightarrow> real list) \<Rightarrow> (real list \<Rightarrow> real list) \<Rightarrow> MinerMetrics list \<Rightarrow>
     ScoringConfigSnapshot \<Rightarrow> ChainParamsSnapshot \<Rightarrow> real list" where
  "scores_vector normalize_zscore_logistic normalize_percentile miner_metrics cfg chain =
     (let sorted_metrics = sort_key m_uid miner_metrics;
          table = skill_table normalize_zscore_logistic normalize_percentile sorted_metrics cfg
      in scatter_scores (nat (n_neurons chain)) (zip (map m_uid sorted_metrics) (map fst table)))"

definition l1_norm :: "real list \<Rightarrow> real" where
  "l1_norm xs = sum_list (map abs xs)"

text \<open>The L1 normalisation with its all-zero case, and step 5. \<open>None\<close> is the early
  \<open>return result\<close>.\<close>

definition raw_weight_vector :: "real list \<Rightarrow> real \<Rightarrow> ChainParamsSnapshot \<Rightarrow> real list option" where
  "raw_weight_vector scores burn_rate_cfg chain =
     (let n = nat (n_neurons chain);
          norm = l1_norm scores;
          all_zero = (norm = 0);
          burn_in_range = (case burn_uid chain of
                             Some b \<Rightarrow> 0 \<le> b \<and> b < n_neurons chain
                           | None \<Rightarrow> False)
      in
      if all_zero then
        (if burn_in_range then Some ((replicate n 0)[nat (the (burn_uid chain)) := 1.0])
         else None)
      else
        let raw = map (\<lambda>s. s / norm) scores in
        if burn_rate_cfg > 0.0 \<and> burn_in_range
        then Some ((map (\<lambda>w. w * (1.0 - burn_rate_cfg)) raw)
                     [nat (the (burn_uid chain)) := burn_rate_cfg])
        else Some raw)"

text \<open>Recording the raw weights, steps 6 and 7.\<close>

definition process_weights :: "real list \<Rightarrow> ChainParamsSnapshot \<Rightarrow> WeightResult \<Rightarrow> WeightResult" where
  "process_weights raw chain result0 =
     (let n = nat (n_neurons chain);
          nz_idx = filter (\<lambda>j. raw ! j > 0) [0..<n];
          result1 = result0\<lparr>raw_weights := map (\<lambda>j. (int j, raw ! j)) nz_idx\<rparr>;
          all_uids = map int [0..<n];
          nz_weights = map (\<lambda>j. raw ! j) nz_idx;
          nz_uids = map int nz_idx
      in
      if length nz_weights = 0 then result1
      else
        let (processed, processed_uids) =
              (if int (length nz_weights) < min_allowed_weights chain
               then (normalize_max_weight
                       (map (\<lambda>j. if raw ! j > 0 then 1 / 100000 + raw ! j else 1 / 100000) [0..<n])
                       (max_weight_limit chain),
                     all_uids)
               else (normalize_max_weight nz_weights (max_weight_limit chain), nz_uids));
            (uid_list, weight_list) = convert_to_uint16 processed_uids processed
        in result1\<lparr>uids := uid_list, uint16_weights := weight_list\<rparr>)"

definition empty_result :: WeightResult where
  "empty_result =
     \<lparr>uids = [], uint16_weights = [], skill_scores = [], raw_weights = [], dimension_scores = []\<rparr>"

text \<open>\<open>compute_weights\<close>. \<open>np.zeros(n_neurons)\<close> raises \<open>ValueError\<close> for a negative
  \<open>n_neurons\<close>. The audit trail is a pair of dicts filled in uid order.\<close>

definition compute_weights ::
  "(real list \<Rightarrow> real list) \<Rightarrow> (real list \<Rightarrow> real list) \<Rightarrow> MinerMetrics list \<Rightarrow>
     ScoringConfigSnapshot \<Rightarrow> ChainParamsSnapshot \<Rightarrow> py_error + WeightResult" where
  "compute_weights normalize_zscore_logistic normalize_percentile miner_metrics cfg chain =
     (if miner_metrics = [] then
        (case burn_uid chain of
           Some b \<Rightarrow> Inr (empty_result\<lparr>uids := [b], uint16_weights := [U16_MAX]\<rparr>)
         | None \<Rightarrow> Inr empty_result)
      else
        let burn_rate_cfg = cfg_get cfg ''weight_emission'' ''burn_rate'' 0.9;
            sorted_metrics = sort_key m_uid miner_metrics;
            uid_list = map m_uid sorted_metrics;
            table = skill_table normalize_zscore_logistic normalize_percentile sorted_metrics cfg;
            result1 = empty_result
              \<lparr>skill_scores :=
                 foldl (\<lambda>d (u, row). AList.update u (fst row) d) [] (zip uid_list table),
               dimension_scores :=
                 foldl (\<lambda>d (u, (sc, f, s, e, i)).
                          AList.update u
                            [(''forecast_dim'', f), (''skill_dim'', s), (''econ_dim'', e),
                             (''info_dim'', i)] d)
                   [] (zip uid_list table)\<rparr>
        in
        if n_neurons chain < 0 then Inl ValueError
        else
          let scores = scores_vector normalize_zscore_logistic normalize_percentile
                         miner_metrics cfg chain
          in
          (case raw_weight_vector scores burn_rate_cfg chain of
             None \<Rightarrow> Inr result1
           | Some raw \<Rightarrow> Inr (process_weights raw chain result1)))"

section \<open>Weight verification plugin (sparket/validator/auditor/plugins/weight_verification.py)\<close>

text \<open>\<open>WeightVerificationHandler.on_cycle\<close> up to step 4, the weights it computes from the
  context the runtime dispatched. \<open>None\<close> is the result \<open>skip\<close> for a checkpoint without
  accumulator entries. When the checkpoint carries no chain parameters the plugin derives
  them from the chain: \<open>chain_fallback\<close>. The Brier checks of step 2 only fill the evidence.
  What follows step 4 compares the computed vector with the primary's on chain and, when
  they match, submits the computed \<open>uids\<close> and \<open>uint16_weights\<close> with \<open>set_weights\<close>.\<close>

definition on_cycle_weights ::
  "(real list \<Rightarrow> real list) \<Rightarrow> (real list \<Rightarrow> real list) \<Rightarrow> ChainParamsSnapshot \<Rightarrow>
     AuditorContext \<Rightarrow> (py_error + WeightResult) option" where
  "on_cycle_weights normalize_zscore_logistic normalize_percentile chain_fallback context =
     (let cp = ctx_checkpoint context;
          metrics = map (\<lambda>acc. snd (from_accumulator acc)) (accumulators cp)
      in
      if metrics = [] then None
      else
        let chain = (case chain_params cp of Some c \<Rightarrow> c | None \<Rightarrow> chain_fallback)
        in Some (compute_weights normalize_zscore_logistic normalize_percentile metrics
                   (scoring_config cp) chain))"

section \<open>Example values\<close>

text \<open>Concrete inputs on which the theorems below are evaluated. The hash and the keypair
  of the examples are toys: \<open>toy_hash\<close> gives the unsigned example manifest a digest of its own and tells other
  documents apart by their shape and size, and the
  toy keypair of hotkey \<open>5Primary\<close> signs a message with a marker byte and its length and
  accepts the signatures of three messages only.\<close>

definition example_entry :: AccumulatorEntry where
  "example_entry =
     \<lparr>miner_id = 1, hotkey = ''hk1'', uid = 1, n_submissions = 50, n_outcomes = 50,
      brier = \<lparr>ws = 10, wt = 50\<rparr>, fq = \<lparr>ws = 3, wt = 4\<rparr>, pss = \<lparr>ws = 0, wt = 0\<rparr>,
      es = \<lparr>ws = 1, wt = 8\<rparr>, mes = \<lparr>ws = 0, wt = 0\<rparr>, sos = \<lparr>ws = 1, wt = 2\<rparr>,
      lead = \<lparr>ws = 7, wt = 0\<rparr>,
      brier_mean = 0.9, fq_raw = 0.9, pss_mean = 0.9, es_adj = 0.9, mes_mean = 0.9,
      sos_score = 0.9, lead_score = 0.9, cal_score = 0.25, sharp_score = 0.75\<rparr>"

definition t0 :: datetime where
  "t0 = \<lparr>year = 2024, month = 1, day = 1, hour = 0, minute = 0, second = 0, microsecond = 0\<rparr>"

definition t1 :: datetime where
  "t1 = \<lparr>year = 2024, month = 1, day = 2, hour = 0, minute = 0, second = 0, microsecond = 0\<rparr>"

definition example_manifest :: LedgerManifest where
  "example_manifest =
     \<lparr>schema_version = 1, window_type = ''checkpoint'', window_start = t0, window_end = t1,
      checkpoint_epoch = 1,
      content_hashes = [''roster'' \<mapsto> ''rx'', ''accumulators'' \<mapsto> ''ax'', ''scoring_config'' \<mapsto> ''c''],
      primary_hotkey = ''5Primary'', signature = ''ab0c'', created_at = t1,
      recompute_record = None\<rparr>"

definition toy_hash :: "hash_input \<Rightarrow> string" where
  "toy_hash d =
     (case d of
        ManifestDump m \<Rightarrow>
          (if m = example_manifest\<lparr>signature := []\<rparr> then ''mcheckpointe''
           else ''x'' @ window_type m @ replicate (nat (checkpoint_epoch m)) CHR ''e'')
      | Items s \<Rightarrow>
          (case s of
             Roster xs \<Rightarrow> ''r'' @ replicate (length xs) CHR ''x''
           | Accumulators xs \<Rightarrow> ''a'' @ replicate (length xs) CHR ''x''
           | ScoringConfig c \<Rightarrow> ''i''
           | SettledSubmissions xs \<Rightarrow> ''s'' @ replicate (length xs) CHR ''x''
           | SettledOutcomes xs \<Rightarrow> ''o'' @ replicate (length xs) CHR ''x'')
      | ModelDump s \<Rightarrow> ''c'')"

definition toy_sign :: "string \<Rightarrow> byte list" where
  "toy_sign msg = [0xAB, of_nat (length msg)]"

definition toy_verify :: "string \<Rightarrow> string \<Rightarrow> byte list \<Rightarrow> bool" where
  "toy_verify hk msg sig_bytes \<longleftrightarrow>
     hk = ''5Primary'' \<and>
     (msg = ''mcheckpointe'' \<and> sig_bytes = [0xAB, 12] \<or>
      msg = ''xdeltae'' \<and> sig_bytes = [0xAB, 7] \<or>
      msg = ''xcheckpointee'' \<and> sig_bytes = [0xAB, 13])"

definition example_checkpoint :: CheckpointWindow where
  "example_checkpoint =
     \<lparr>cp_manifest = example_manifest,
      roster = [\<lparr>r_miner_id = 1, r_uid = 1, r_hotkey = ''hk1'', active = True\<rparr>],
      accumulators = [example_entry],
      scoring_config = \<lparr>params = []\<rparr>,
      chain_params = None\<rparr>"

definition example_delta :: DeltaWindow where
  "example_delta =
     \<lparr>d_manifest = example_manifest\<lparr>window_type := ''delta'', signature := ''AB 07'',
         content_hashes := [''settled_submissions'' \<mapsto> ''sx'', ''settled_outcomes'' \<mapsto> ''o'']\<rparr>,
      settled_submissions =
        [\<lparr>sub_miner_id = 1, sub_market_id = 10, side = ''home'', imp_prob = 0.6,
          sub_brier = Some 0.16, sub_pss = None, sub_settled_at = t1\<rparr>],
      settled_outcomes = []\<rparr>"

text \<open>An auditor at epoch 1 that recorded one epoch bump at time 1000, and checkpoints of
  epoch 2 that carry a recompute record.\<close>

definition example_sync :: LedgerSync where
  "example_sync =
     \<lparr>max_epoch_bumps_per_day = 1, max_epoch_bumps_per_week = 3, epoch = 1,
      last_delta_id = ''d_old'', last_delta_ts = None,
      accumulator = [1 \<mapsto> \<lparr>brier_ws = 5, brier_wt = 25, count = 25\<rparr>],
      recompute_history =
        [\<lparr>h_epoch = 1, h_timestamp = 1000, h_reason_code = ''SCORING_BUG'',
          h_reason_detail = ''first fix''\<rparr>],
      latest_checkpoint = None, latest_deltas = []\<rparr>"

definition example_record :: RecomputeRecord where
  "example_record =
     \<lparr>rr_epoch = 2, previous_epoch = 1, reason_code = SCORING_BUG,
      reason_detail = ''second fix'', affected_event_ids = [], severity = ''bugfix'',
      timestamp = t1, code_version = ''abc''\<rparr>"

definition epoch2_checkpoint :: "RecomputeRecord \<Rightarrow> CheckpointWindow" where
  "epoch2_checkpoint r =
     example_checkpoint\<lparr>cp_manifest :=
       example_manifest\<lparr>checkpoint_epoch := 2, recompute_record := Some r,
         signature := ''ab0d''\<rparr>\<rparr>"

definition example_store :: "CheckpointWindow \<Rightarrow> LedgerStore" where
  "example_store cp =
     \<lparr>store_get_latest_checkpoint = Some cp,
      store_list_deltas = (\<lambda>e since. []),
      store_get_delta = (\<lambda>i. None)\<rparr>"

text \<open>Checkpoints of epoch 9 and of epoch 10, the second with the later window, and a
  retention cutoff before both.\<close>

definition checkpoint_of_epoch :: "int \<Rightarrow> datetime \<Rightarrow> CheckpointWindow" where
  "checkpoint_of_epoch e w =
     example_checkpoint\<lparr>cp_manifest := example_manifest\<lparr>checkpoint_epoch := e, window_end := w\<rparr>\<rparr>"

definition cutoff0 :: datetime where
  "cutoff0 = \<lparr>year = 2023, month = 12, day = 25, hour = 0, minute = 0, second = 0,
      microsecond = 0\<rparr>"

definition store_9_10 :: FilesystemStore where
  "store_9_10 =
     snd (put_checkpoint cutoff0 (checkpoint_of_epoch 10 t1)
       (snd (put_checkpoint cutoff0 (checkpoint_of_epoch 9 t0) empty_store)))"

text \<open>Two consecutive deltas of epoch 1 on 2024-01-01, from 10:00 to 12:00 and from 12:00 to
  14:00, and the time 11:00 in between.\<close>

definition clock :: "nat \<Rightarrow> datetime" where
  "clock h = \<lparr>year = 2024, month = 1, day = 1, hour = h, minute = 0, second = 0,
      microsecond = 0\<rparr>"

definition delta_between :: "datetime \<Rightarrow> datetime \<Rightarrow> DeltaWindow" where
  "delta_between s e =
     example_delta\<lparr>d_manifest := (d_manifest example_delta)\<lparr>window_start := s, window_end := e\<rparr>\<rparr>"

definition delta_store :: FilesystemStore where
  "delta_store =
     snd (put_delta cutoff0 (delta_between (clock 12) (clock 14))
       (snd (put_delta cutoff0 (delta_between (clock 10) (clock 12)) empty_store)))"

text \<open>One miner whose metrics give the skill score zero under normalisers that answer zero
  throughout, on a subnet of five neurons with burn uid 0.\<close>

definition zero_normalizer :: "real list \<Rightarrow> real list" where
  "zero_normalizer xs = map (\<lambda>x. 0) xs"

definition zero_miner :: MinerMetrics where
  "zero_miner =
     \<lparr>m_uid = 1, m_hotkey = ''hk1'', m_fq_raw = - 1, m_pss_mean = 0, m_es_adj = 0,
      m_mes_mean = 0, m_cal_score = 0, m_sharp_score = 0, m_sos_score = 0, m_lead_score = 0,
      m_brier_mean = 0\<rparr>"

definition example_chain :: ChainParamsSnapshot where
  "example_chain =
     \<lparr>burn_rate = 0.9, burn_uid = Some 0, max_weight_limit = 0.5, min_allowed_weights = 1,
      n_neurons = 5\<rparr>"

section \<open>Derived means\<close>

lemma derive_means_accumulators [simp]:
  "brier (derive_means a) = brier a" "fq (derive_means a) = fq a"
  "pss (derive_means a) = pss a" "es (derive_means a) = es a"
  "mes (derive_means a) = mes a" "sos (derive_means a) = sos a"
  "lead (derive_means a) = lead a"
  by (simp_all add: derive_means_def)

lemma derive_means_frame [simp]:
  "miner_id (derive_means a) = miner_id a" "hotkey (derive_means a) = hotkey a"
  "uid (derive_means a) = uid a" "n_submissions (derive_means a) = n_submissions a"
  "n_outcomes (derive_means a) = n_outcomes a"
  "cal_score (derive_means a) = cal_score a" "sharp_score (derive_means a) = sharp_score a"
  by (simp_all add: derive_means_def)

text \<open>
  C2. After \<open>derive_means\<close> has run on any accumulator entry, every derived mean equals
  \<open>ws / wt\<close> of its own accumulator pair when \<open>wt\<close> is nonzero, and the per-metric fallback
  when \<open>wt = 0\<close>: 0.0 for \<open>brier_mean\<close>, \<open>fq_raw\<close>, \<open>pss_mean\<close>, \<open>es_adj\<close> and 0.5 for
  \<open>mes_mean\<close>, \<open>sos_score\<close>, \<open>lead_score\<close>.
\<close>

theorem derive_means_consistent: "means_consistent (derive_means a)"
  by (simp add: means_consistent_def mean_of_def) (simp add: derive_means_def)

theorem derive_means_consistent_witness:
  "means_consistent (derive_means example_entry) \<and>
   brier_mean (derive_means example_entry) = 1 / 5 \<and>
   pss_mean (derive_means example_entry) = 0 \<and>
   mes_mean (derive_means example_entry) = 1 / 2 \<and>
   lead_score (derive_means example_entry) = 1 / 2"
  using derive_means_consistent [of example_entry]
  by (simp add: derive_means_def example_entry_def)

text \<open>
  C10. \<open>MinerMetrics.from_accumulator\<close> mutates its argument: the entry it leaves behind is
  the argument after \<open>derive_means\<close>, whose seven derived-mean fields are recomputed from the
  \<open>(ws, wt)\<close> pairs while \<open>cal_score\<close> and \<open>sharp_score\<close> keep their published values. The
  returned metrics carry the recomputed means and the published \<open>cal_score\<close> and
  \<open>sharp_score\<close>, and nothing depends on what the seven fields held before: whatever values
  \<open>b f p e m s l\<close> were published in them, the outcome is the same.
\<close>

theorem from_accumulator_overwrites:
  "fst (from_accumulator acc) = derive_means acc \<and>
   means_consistent (fst (from_accumulator acc)) \<and>
   cal_score (fst (from_accumulator acc)) = cal_score acc \<and>
   sharp_score (fst (from_accumulator acc)) = sharp_score acc \<and>
   m_uid (snd (from_accumulator acc)) = uid acc \<and>
   m_hotkey (snd (from_accumulator acc)) = hotkey acc \<and>
   m_brier_mean (snd (from_accumulator acc)) = brier_mean (derive_means acc) \<and>
   m_fq_raw (snd (from_accumulator acc)) = fq_raw (derive_means acc) \<and>
   m_pss_mean (snd (from_accumulator acc)) = pss_mean (derive_means acc) \<and>
   m_es_adj (snd (from_accumulator acc)) = es_adj (derive_means acc) \<and>
   m_mes_mean (snd (from_accumulator acc)) = mes_mean (derive_means acc) \<and>
   m_sos_score (snd (from_accumulator acc)) = sos_score (derive_means acc) \<and>
   m_lead_score (snd (from_accumulator acc)) = lead_score (derive_means acc) \<and>
   m_cal_score (snd (from_accumulator acc)) = cal_score acc \<and>
   m_sharp_score (snd (from_accumulator acc)) = sharp_score acc \<and>
   from_accumulator (acc\<lparr>brier_mean := b, fq_raw := f, pss_mean := p, es_adj := e,
       mes_mean := m, sos_score := s, lead_score := l\<rparr>) = from_accumulator acc"
proof -
  have frame: "derive_means (acc\<lparr>brier_mean := b, fq_raw := f, pss_mean := p, es_adj := e,
       mes_mean := m, sos_score := s, lead_score := l\<rparr>) = derive_means acc"
    by (simp add: derive_means_def)
  have cons: "means_consistent (derive_means acc)"
    by (simp add: means_consistent_def mean_of_def) (simp add: derive_means_def)
  show ?thesis
    using cons by (simp add: from_accumulator_def Let_def frame)
qed

text \<open>On the example entry, published with 0.9 in each of the seven fields, the published
  values are gone from the entry and from the metrics.\<close>

theorem from_accumulator_overwrites_witness:
  "brier_mean example_entry = 9 / 10 \<and>
   brier_mean (fst (from_accumulator example_entry)) = 1 / 5 \<and>
   m_brier_mean (snd (from_accumulator example_entry)) = 1 / 5 \<and>
   m_mes_mean (snd (from_accumulator example_entry)) = 1 / 2 \<and>
   m_cal_score (snd (from_accumulator example_entry)) = 1 / 4 \<and>
   means_consistent (fst (from_accumulator example_entry))"
proof -
  have "means_consistent (fst (from_accumulator example_entry))"
    using from_accumulator_overwrites [of example_entry 0 0 0 0 0 0 0] by blast
  then show ?thesis
    by (simp add: from_accumulator_def Let_def derive_means_def example_entry_def)
qed

text \<open>\<open>get_miner_metrics\<close> does this to every accumulator entry of the latest checkpoint: the
  entries the checkpoint holds afterwards are the recomputed ones.\<close>

lemma get_miner_metrics_mutates:
  assumes "latest_checkpoint self = Some cp"
  shows "get_miner_metrics self =
     (map (\<lambda>acc. snd (from_accumulator acc)) (accumulators cp),
      self\<lparr>latest_checkpoint := Some (cp\<lparr>accumulators := map derive_means (accumulators cp)\<rparr>)\<rparr>)"
  using assms by (simp add: get_miner_metrics_def from_accumulator_def Let_def)

section \<open>Redaction: the denylist and the allowlists\<close>

lemma tier3_accumulator_disjoint: "TIER3_FIELD_PATTERNS \<inter> SAFE_ACCUMULATOR_FIELDS = {}"
  by (simp add: TIER3_FIELD_PATTERNS_def SAFE_ACCUMULATOR_FIELDS_def)

lemma tier3_rolling_disjoint: "TIER3_FIELD_PATTERNS \<inter> SAFE_ROLLING_SCORE_FIELDS = {}"
  by (simp add: TIER3_FIELD_PATTERNS_def SAFE_ROLLING_SCORE_FIELDS_def)

lemma tier3_outcome_disjoint: "TIER3_FIELD_PATTERNS \<inter> SAFE_OUTCOME_FIELDS = {}"
  by (simp add: TIER3_FIELD_PATTERNS_def SAFE_OUTCOME_FIELDS_def)

lemma tier3_miner_disjoint: "TIER3_FIELD_PATTERNS \<inter> SAFE_MINER_FIELDS = {}"
  by (simp add: TIER3_FIELD_PATTERNS_def SAFE_MINER_FIELDS_def)

lemma tier3_submission_disjoint: "TIER3_FIELD_PATTERNS \<inter> SAFE_SETTLED_SUBMISSION_FIELDS = {}"
  by (simp add: TIER3_FIELD_PATTERNS_def SAFE_SETTLED_SUBMISSION_FIELDS_def)

lemma redact_keys: "set (map fst (redact row allowlist)) \<subseteq> allowlist"
  by (auto simp: redact_def)

lemma redact_no_tier3:
  assumes "TIER3_FIELD_PATTERNS \<inter> allowlist = {}"
  shows "\<not> contains_tier3 (redact row allowlist)"
  using assms redact_keys [of row allowlist] unfolding contains_tier3_def by blast

text \<open>
  C7. The Tier-3 denylist is disjoint from every Tier-2 allowlist: its intersection with the
  union of the five allowlists is empty. Consequently \<open>contains_tier3\<close> is false for every
  row that \<open>redact\<close> produces under any of the five allowlists.
\<close>

theorem tier3_disjoint_from_allowlists:
  "TIER3_FIELD_PATTERNS \<inter>
     (SAFE_ACCUMULATOR_FIELDS \<union> SAFE_ROLLING_SCORE_FIELDS \<union> SAFE_OUTCOME_FIELDS \<union>
      SAFE_MINER_FIELDS \<union> SAFE_SETTLED_SUBMISSION_FIELDS) = {} \<and>
   \<not> contains_tier3 (redact row SAFE_ACCUMULATOR_FIELDS) \<and>
   \<not> contains_tier3 (redact row SAFE_ROLLING_SCORE_FIELDS) \<and>
   \<not> contains_tier3 (redact row SAFE_OUTCOME_FIELDS) \<and>
   \<not> contains_tier3 (redact row SAFE_MINER_FIELDS) \<and>
   \<not> contains_tier3 (redact row SAFE_SETTLED_SUBMISSION_FIELDS)"
proof -
  have "TIER3_FIELD_PATTERNS \<inter>
     (SAFE_ACCUMULATOR_FIELDS \<union> SAFE_ROLLING_SCORE_FIELDS \<union> SAFE_OUTCOME_FIELDS \<union>
      SAFE_MINER_FIELDS \<union> SAFE_SETTLED_SUBMISSION_FIELDS) = {}"
    using tier3_accumulator_disjoint tier3_rolling_disjoint tier3_outcome_disjoint
      tier3_miner_disjoint tier3_submission_disjoint
    by (simp only: Int_Un_distrib Un_empty)
  then show ?thesis
    by (simp only: redact_no_tier3 [OF tier3_accumulator_disjoint]
        redact_no_tier3 [OF tier3_rolling_disjoint] redact_no_tier3 [OF tier3_outcome_disjoint]
        redact_no_tier3 [OF tier3_miner_disjoint] redact_no_tier3 [OF tier3_submission_disjoint]
        not_False_eq_True simp_thms)
qed

text \<open>A row carrying Tier-3 fields, unknown fields and a \<open>None\<close> value, redacted for the
  settled-submission shape.\<close>

theorem tier3_disjoint_from_allowlists_witness:
  "contains_tier3 [(''miner_id'', Some (1::int)), (''odds_eu'', Some 2), (''payload'', Some 3),
      (''brier'', None), (''side'', Some 4), (''junk'', Some 5)] \<and>
   redact [(''miner_id'', Some (1::int)), (''odds_eu'', Some 2), (''payload'', Some 3),
      (''brier'', None), (''side'', Some 4), (''junk'', Some 5)] SAFE_SETTLED_SUBMISSION_FIELDS
     = [(''miner_id'', Some 1), (''side'', Some 4)] \<and>
   \<not> contains_tier3 (redact [(''miner_id'', Some (1::int)), (''odds_eu'', Some 2),
      (''payload'', Some 3), (''brier'', None), (''side'', Some 4), (''junk'', Some 5)]
      SAFE_SETTLED_SUBMISSION_FIELDS)"
  using tier3_disjoint_from_allowlists
    [of "[(''miner_id'', Some (1::int)), (''odds_eu'', Some 2), (''payload'', Some 3),
      (''brier'', None), (''side'', Some 4), (''junk'', Some 5)]"]
  by (simp add: contains_tier3_def redact_def SAFE_SETTLED_SUBMISSION_FIELDS_def
      TIER3_FIELD_PATTERNS_def)

section \<open>Signing and verifying manifests\<close>

lemma nibble_cases: "n < 16 \<Longrightarrow> n \<in> {0,1,2,3,4,5,6,7,8,9,10,11,12,13,14,15::nat}"
  by (simp, presburger)

lemma digitvalue_hexdigit: "n < 16 \<Longrightarrow> digitvalue (hexdigit n) = Some n"
  using nibble_cases [of n] by (auto simp: digitvalue_def hexdigit_def)

lemma not_space_hexdigit: "n < 16 \<Longrightarrow> \<not> is_space (hexdigit n)"
  using nibble_cases [of n] by (auto simp: is_space_def hexdigit_def)

lemma byte_nibbles: "of_nat (16 * (unat b div 16) + unat b mod 16) = (b :: byte)"
  by simp

lemma unat_byte_div: "unat (b :: byte) div 16 < 16"
  using unsigned_less [of b, where 'a = nat] by (simp add: less_mult_imp_div_less)

text \<open>\<open>bytes.fromhex\<close> inverts \<open>bytes.hex\<close>.\<close>

lemma bytes_fromhex_hex: "bytes_fromhex (bytes_hex bs) = Some bs"
proof (induction bs)
  case Nil
  then show ?case by (simp add: bytes_hex_def)
next
  case (Cons b bs)
  have hi: "unat b div 16 < 16" by (rule unat_byte_div)
  have lo: "unat b mod 16 < 16" by simp
  show ?case
    using Cons.IH
    by (simp add: bytes_hex_def hex_of_byte_def not_space_hexdigit [OF hi]
        digitvalue_hexdigit [OF hi] digitvalue_hexdigit [OF lo] byte_nibbles
        del: of_nat_add of_nat_mult)
qed

lemma bytes_hex_empty: "bytes_hex bs = [] \<longleftrightarrow> bs = []"
  by (cases bs) (simp_all add: bytes_hex_def hex_of_byte_def)

lemma payload_ignores_signature:
  "manifest_signing_payload ch (m\<lparr>signature := s\<rparr>) = manifest_signing_payload ch m"
  by (simp add: manifest_signing_payload_def)


text \<open>
  C4. Manifest signing round-trips. The keypair and the hash are collaborators, so their
  properties at the signed manifest are the premises: the keypair accepts its own signature
  of the payload (\<open>correct\<close>), the signature is not the empty byte string (\<open>nonempty\<close>), no
  other document has the payload's hash (\<open>no_collision\<close>) and the signature is accepted for
  no other message (\<open>no_forgery\<close>). Then the manifest carrying the signature that
  \<open>sign_manifest\<close> returns verifies against the keypair's hotkey, and every manifest that
  carries this signature but differs from the signed one in any field other than the
  signature fails verification.
\<close>

theorem sign_verify_roundtrip:
  assumes correct:
      "kv hk (manifest_signing_payload ch m) (sign (manifest_signing_payload ch m))"
    and nonempty: "sign (manifest_signing_payload ch m) \<noteq> []"
    and no_collision:
      "\<forall>d. ch d = ch (ManifestDump (m\<lparr>signature := []\<rparr>)) \<longrightarrow> d = ManifestDump (m\<lparr>signature := []\<rparr>)"
    and no_forgery:
      "\<forall>msg. kv hk msg (sign (manifest_signing_payload ch m)) \<longrightarrow>
             msg = manifest_signing_payload ch m"
  shows "verify_manifest ch kv (m\<lparr>signature := sign_manifest ch sign m\<rparr>) hk \<and>
         (\<forall>m'. signature m' = sign_manifest ch sign m \<and>
               m'\<lparr>signature := []\<rparr> \<noteq> m\<lparr>signature := []\<rparr> \<longrightarrow>
               \<not> verify_manifest ch kv m' hk)"
proof (intro conjI allI impI)
  let ?p = "manifest_signing_payload ch m"
  have hex: "bytes_fromhex (sign_manifest ch sign m) = Some (sign ?p)"
    by (simp add: sign_manifest_def Let_def bytes_fromhex_hex)
  have ne: "sign_manifest ch sign m \<noteq> []"
    using nonempty by (simp add: sign_manifest_def Let_def bytes_hex_empty)
  show "verify_manifest ch kv (m\<lparr>signature := sign_manifest ch sign m\<rparr>) hk"
    using correct ne hex
    by (simp add: verify_manifest_def Let_def payload_ignores_signature)
  fix m'
  assume a: "signature m' = sign_manifest ch sign m \<and> m'\<lparr>signature := []\<rparr> \<noteq> m\<lparr>signature := []\<rparr>"
  show "\<not> verify_manifest ch kv m' hk"
  proof
    assume "verify_manifest ch kv m' hk"
    then have "kv hk (manifest_signing_payload ch m') (sign ?p)"
      using a hex by (simp add: verify_manifest_def Let_def split: if_splits)
    then have "manifest_signing_payload ch m' = ?p"
      using no_forgery by blast
    then have "ch (ManifestDump (m'\<lparr>signature := []\<rparr>)) = ch (ManifestDump (m\<lparr>signature := []\<rparr>))"
      by (simp add: manifest_signing_payload_def)
    with no_collision
    have "ManifestDump (m'\<lparr>signature := []\<rparr>) = ManifestDump (m\<lparr>signature := []\<rparr>)"
      by blast
    then show False using a by simp
  qed
qed

lemma example_payload:
  "manifest_signing_payload toy_hash example_manifest = ''mcheckpointe''"
  by (simp add: manifest_signing_payload_def toy_hash_def)

lemma example_signature: "sign_manifest toy_hash toy_sign example_manifest = ''ab0c''"
  by (simp add: sign_manifest_def Let_def example_payload toy_sign_def bytes_hex_def
      hex_of_byte_def hexdigit_def)

lemma toy_hash_no_collision:
  "\<forall>d. toy_hash d = toy_hash (ManifestDump (example_manifest\<lparr>signature := []\<rparr>)) \<longrightarrow>
       d = ManifestDump (example_manifest\<lparr>signature := []\<rparr>)"
  by (auto simp: toy_hash_def split: hash_input.splits section_data.splits if_splits)

text \<open>The example manifest under the toy keypair: it verifies with the signature
  \<open>sign_manifest\<close> returns, and no longer once its epoch is changed to 999.\<close>

theorem sign_verify_roundtrip_witness:
  "sign_manifest toy_hash toy_sign example_manifest = ''ab0c'' \<and>
   verify_manifest toy_hash toy_verify
     (example_manifest\<lparr>signature := sign_manifest toy_hash toy_sign example_manifest\<rparr>)
     ''5Primary'' \<and>
   \<not> verify_manifest toy_hash toy_verify (example_manifest\<lparr>checkpoint_epoch := 999\<rparr>) ''5Primary''"
proof -
  have correct: "toy_verify ''5Primary'' (manifest_signing_payload toy_hash example_manifest)
      (toy_sign (manifest_signing_payload toy_hash example_manifest))"
    by (simp add: example_payload toy_verify_def toy_sign_def)
  have nonempty: "toy_sign (manifest_signing_payload toy_hash example_manifest) \<noteq> []"
    by (simp add: toy_sign_def)
  have no_forgery: "\<forall>msg. toy_verify ''5Primary'' msg
      (toy_sign (manifest_signing_payload toy_hash example_manifest)) \<longrightarrow>
      msg = manifest_signing_payload toy_hash example_manifest"
    by (simp add: example_payload toy_verify_def toy_sign_def)
  note rt = sign_verify_roundtrip [of toy_verify "''5Primary''" toy_hash example_manifest
      toy_sign, OF correct nonempty toy_hash_no_collision no_forgery]
  have sig: "signature (example_manifest\<lparr>checkpoint_epoch := 999\<rparr>) =
      sign_manifest toy_hash toy_sign example_manifest"
    by (simp add: example_signature) (simp add: example_manifest_def)
  have diff: "example_manifest\<lparr>checkpoint_epoch := 999\<rparr>\<lparr>signature := []\<rparr> \<noteq>
      example_manifest\<lparr>signature := []\<rparr>"
    by (simp add: example_manifest_def)
  from rt sig diff
  have "\<not> verify_manifest toy_hash toy_verify (example_manifest\<lparr>checkpoint_epoch := 999\<rparr>)
      ''5Primary''"
    by blast
  with rt example_signature show ?thesis by blast
qed

section \<open>The manifest verifier\<close>






section \<open>The epoch-change rate policy of the auditor\<close>

lemma handle_epoch_change_rejected:
  assumes "recompute_record (cp_manifest cp) = Some r" "reason_detail r = []"
  shows "handle_epoch_change now cp self =
     (\<lparr>status = ''rejected'', reason = ''empty_reason_detail''\<rparr>, self)"
  using assms by (simp add: handle_epoch_change_def Let_def)

lemma handle_epoch_change_paused:
  assumes "\<forall>r. recompute_record (cp_manifest cp) = Some r \<longrightarrow> valid_recompute_record r"
    and "max_epoch_bumps_per_day self \<le> bumps_within now 86400 self \<or>
         max_epoch_bumps_per_week self \<le> bumps_within now 604800 self"
  shows "status (fst (handle_epoch_change now cp self)) = ''paused'' \<and>
         snd (handle_epoch_change now cp self) = self"
  using assms
  by (auto simp: handle_epoch_change_def bumps_within_def valid_recompute_record_def Let_def
      split: option.splits)

lemma handle_epoch_change_accepted:
  assumes "\<forall>r. recompute_record (cp_manifest cp) = Some r \<longrightarrow> valid_recompute_record r"
    and "bumps_within now 86400 self < max_epoch_bumps_per_day self"
    and "bumps_within now 604800 self < max_epoch_bumps_per_week self"
  shows "status (fst (handle_epoch_change now cp self)) = ''accepted'' \<and>
         epoch (snd (handle_epoch_change now cp self)) = checkpoint_epoch (cp_manifest cp) \<and>
         accumulator (snd (handle_epoch_change now cp self)) = Map.empty \<and>
         last_delta_id (snd (handle_epoch_change now cp self)) = []"
  using assms
  by (auto simp: handle_epoch_change_def bumps_within_def valid_recompute_record_def Let_def
      split: option.splits)

lemma handle_epoch_change_frame:
  "recompute_history (self\<lparr>latest_deltas := ds, latest_checkpoint := c\<rparr>) = recompute_history self"
  "bumps_within now secs (self\<lparr>latest_deltas := ds, latest_checkpoint := c\<rparr>) =
     bumps_within now secs self"
  by (simp_all add: bumps_within_def)

lemma sync_cycle_stops:
  assumes "store_get_latest_checkpoint store = Some cp"
    and "checkpoint_epoch (cp_manifest cp) \<noteq> epoch self"
    and "status (fst (handle_epoch_change now cp
           (self\<lparr>latest_deltas := [], latest_checkpoint := Some cp\<rparr>))) \<in> {''rejected'', ''paused''}"
  shows "sync_cycle now store self =
     ((Some cp, []), snd (handle_epoch_change now cp
           (self\<lparr>latest_deltas := [], latest_checkpoint := Some cp\<rparr>)))"
  using assms by (auto simp: sync_cycle_def Let_def split: prod.splits)

lemma epoch_change_paused_sync:
  assumes latest: "store_get_latest_checkpoint store = Some cp"
    and differs: "checkpoint_epoch (cp_manifest cp) \<noteq> epoch self"
    and detail: "\<forall>r. recompute_record (cp_manifest cp) = Some r \<longrightarrow> valid_recompute_record r"
    and over: "max_epoch_bumps_per_day self \<le> bumps_within now 86400 self \<or>
      max_epoch_bumps_per_week self \<le> bumps_within now 604800 self"
  shows "sync_cycle now store self =
     ((Some cp, []), self\<lparr>latest_deltas := [], latest_checkpoint := Some cp\<rparr>)"
proof -
  let ?s = "self\<lparr>latest_deltas := [], latest_checkpoint := Some cp\<rparr>"
  have over': "max_epoch_bumps_per_day ?s \<le> bumps_within now 86400 ?s \<or>
      max_epoch_bumps_per_week ?s \<le> bumps_within now 604800 ?s"
    using over by (simp add: handle_epoch_change_frame)
  have p: "status (fst (handle_epoch_change now cp ?s)) = ''paused'' \<and>
      snd (handle_epoch_change now cp ?s) = ?s"
    by (rule handle_epoch_change_paused [OF detail over'])
  then have "status (fst (handle_epoch_change now cp ?s)) \<in> {''rejected'', ''paused''}"
    by simp
  from sync_cycle_stops [OF latest differs this] p
  show ?thesis by simp
qed

lemma no_recent_bumps:
  assumes "\<forall>e \<in> set (recompute_history self). secs \<le> now - h_timestamp e"
  shows "bumps_within now secs self = 0"
proof -
  have "filter (\<lambda>e. now - h_timestamp e < secs) (recompute_history self) = []"
    using assms by (auto simp: filter_empty_conv)
  then show ?thesis by (simp add: bumps_within_def)
qed

lemma bumps_within_mono:
  assumes "s1 \<le> s2"
  shows "bumps_within now s1 self \<le> bumps_within now s2 self"
proof -
  have "length (filter (\<lambda>e. now - h_timestamp e < s1) (recompute_history self)) =
        length (filter (\<lambda>e. now - h_timestamp e < s1)
          (filter (\<lambda>e. now - h_timestamp e < s2) (recompute_history self)))"
    using assms by (simp add: conj_commute cong: conj_cong)
  also have "\<dots> \<le> length (filter (\<lambda>e. now - h_timestamp e < s2) (recompute_history self))"
    by (rule length_filter_le)
  finally show ?thesis by (simp add: bumps_within_def)
qed

text \<open>
  The rate policy on the state of \<open>LedgerSync\<close>. Let the auditor process a checkpoint whose
  epoch differs from its local epoch and whose recompute record, if there is one, is valid.
  \<^item> If at least \<open>max_epoch_bumps_per_day\<close> recompute-history entries lie within the last
    24 hours, or at least \<open>max_epoch_bumps_per_week\<close> within the last 7 days, the epoch change
    returns \<open>paused\<close> and leaves the state as it is; \<open>sync_cycle\<close> returns the checkpoint with
    no deltas, and its state differs from the state before only in \<open>latest_checkpoint\<close> and
    \<open>latest_deltas\<close>: epoch, accumulator map, \<open>last_delta_id\<close> are unchanged and no delta is
    applied.
  \<^item> If fewer entries than either limit lie in the two windows, the epoch change is accepted:
    the local epoch becomes the checkpoint's, the accumulator map and \<open>last_delta_id\<close> are
    reset.
  \<^item> In particular, once no entry lies within the last 7 days and both limits are positive,
    the epoch change is accepted again.
\<close>

lemma epoch_change_state_policy:
  assumes latest: "store_get_latest_checkpoint store = Some cp"
    and differs: "checkpoint_epoch (cp_manifest cp) \<noteq> epoch self"
    and detail: "\<forall>r. recompute_record (cp_manifest cp) = Some r \<longrightarrow> valid_recompute_record r"
  shows
    "(max_epoch_bumps_per_day self \<le> bumps_within now 86400 self \<or>
      max_epoch_bumps_per_week self \<le> bumps_within now 604800 self \<longrightarrow>
        status (fst (handle_epoch_change now cp self)) = ''paused'' \<and>
        snd (handle_epoch_change now cp self) = self \<and>
        sync_cycle now store self =
          ((Some cp, []), self\<lparr>latest_deltas := [], latest_checkpoint := Some cp\<rparr>)) \<and>
     (bumps_within now 86400 self < max_epoch_bumps_per_day self \<and>
      bumps_within now 604800 self < max_epoch_bumps_per_week self \<longrightarrow>
        status (fst (handle_epoch_change now cp self)) = ''accepted'' \<and>
        epoch (snd (handle_epoch_change now cp self)) = checkpoint_epoch (cp_manifest cp) \<and>
        accumulator (snd (handle_epoch_change now cp self)) = Map.empty \<and>
        last_delta_id (snd (handle_epoch_change now cp self)) = []) \<and>
     ((\<forall>e \<in> set (recompute_history self). 604800 \<le> now - h_timestamp e) \<and>
      0 < max_epoch_bumps_per_day self \<and> 0 < max_epoch_bumps_per_week self \<longrightarrow>
        status (fst (handle_epoch_change now cp self)) = ''accepted'')"
proof (intro conjI impI)
  assume over: "max_epoch_bumps_per_day self \<le> bumps_within now 86400 self \<or>
      max_epoch_bumps_per_week self \<le> bumps_within now 604800 self"
  show "status (fst (handle_epoch_change now cp self)) = ''paused''"
    and "snd (handle_epoch_change now cp self) = self"
    using handle_epoch_change_paused [OF detail over] by simp_all
  show "sync_cycle now store self =
      ((Some cp, []), self\<lparr>latest_deltas := [], latest_checkpoint := Some cp\<rparr>)"
    by (rule epoch_change_paused_sync [OF latest differs detail over])
next
  assume under: "bumps_within now 86400 self < max_epoch_bumps_per_day self \<and>
      bumps_within now 604800 self < max_epoch_bumps_per_week self"
  then have d: "bumps_within now 86400 self < max_epoch_bumps_per_day self"
    and w: "bumps_within now 604800 self < max_epoch_bumps_per_week self" by simp_all
  show "status (fst (handle_epoch_change now cp self)) = ''accepted''"
    and "epoch (snd (handle_epoch_change now cp self)) = checkpoint_epoch (cp_manifest cp)"
    and "accumulator (snd (handle_epoch_change now cp self)) = Map.empty"
    and "last_delta_id (snd (handle_epoch_change now cp self)) = []"
    using handle_epoch_change_accepted [OF detail d w] by simp_all
next
  assume old: "(\<forall>e \<in> set (recompute_history self). 604800 \<le> now - h_timestamp e) \<and>
      0 < max_epoch_bumps_per_day self \<and> 0 < max_epoch_bumps_per_week self"
  then have w0: "bumps_within now 604800 self = 0"
    using no_recent_bumps [of self 604800 now] by simp
  have "bumps_within now 86400 self \<le> bumps_within now 604800 self"
    by (rule bumps_within_mono) simp
  moreover have "0 \<le> bumps_within now 86400 self" by (simp add: bumps_within_def)
  ultimately have d0: "bumps_within now 86400 self = 0" using w0 by simp
  show "status (fst (handle_epoch_change now cp self)) = ''accepted''"
    using handle_epoch_change_accepted [OF detail, of now self] old w0 d0 by simp
qed

lemma example_sync_bumps:
  "bumps_within 2000 86400 example_sync = 1"
  "bumps_within 87400 86400 example_sync = 0"
  "bumps_within 87400 604800 example_sync = 1"
  by (simp_all add: bumps_within_def example_sync_def)

text \<open>The example auditor recorded a bump at time 1000. At time 2000 a checkpoint of epoch 2
  is paused and the sync cycle changes nothing but the latest checkpoint; 24 hours after the
  recorded bump the same checkpoint is accepted.\<close>

lemma epoch_change_state_policy_example:
  "status (fst (handle_epoch_change 2000 (epoch2_checkpoint example_record) example_sync))
     = ''paused'' \<and>
   sync_cycle 2000 (example_store (epoch2_checkpoint example_record)) example_sync =
     ((Some (epoch2_checkpoint example_record), []),
      example_sync\<lparr>latest_deltas := [],
        latest_checkpoint := Some (epoch2_checkpoint example_record)\<rparr>) \<and>
   status (fst (handle_epoch_change 87400 (epoch2_checkpoint example_record) example_sync))
     = ''accepted'' \<and>
   epoch (snd (handle_epoch_change 87400 (epoch2_checkpoint example_record) example_sync)) = 2"
proof -
  let ?cp = "epoch2_checkpoint example_record"
  have latest: "store_get_latest_checkpoint (example_store ?cp) = Some ?cp"
    by (simp add: example_store_def)
  have differs: "checkpoint_epoch (cp_manifest ?cp) \<noteq> epoch example_sync"
    by (simp add: epoch2_checkpoint_def example_sync_def)
  have detail: "\<forall>r. recompute_record (cp_manifest ?cp) = Some r \<longrightarrow> valid_recompute_record r"
    by (simp add: epoch2_checkpoint_def example_record_def valid_recompute_record_def)
  have lim: "max_epoch_bumps_per_day example_sync = 1" "max_epoch_bumps_per_week example_sync = 3"
    by (simp_all add: example_sync_def)
  have e2: "checkpoint_epoch (cp_manifest ?cp) = 2"
    by (simp add: epoch2_checkpoint_def)
  note early = epoch_change_state_policy [OF latest differs detail, of 2000]
  note late = epoch_change_state_policy [OF latest differs detail, of 87400]
  from early have paused:
    "status (fst (handle_epoch_change 2000 ?cp example_sync)) = ''paused'' \<and>
     sync_cycle 2000 (example_store ?cp) example_sync =
       ((Some ?cp, []), example_sync\<lparr>latest_deltas := [], latest_checkpoint := Some ?cp\<rparr>)"
    by (simp add: example_sync_bumps lim)
  from late have accepted:
    "status (fst (handle_epoch_change 87400 ?cp example_sync)) = ''accepted'' \<and>
     epoch (snd (handle_epoch_change 87400 ?cp example_sync)) = 2"
    by (simp add: example_sync_bumps lim e2)
  from paused accepted show ?thesis by blast
qed

text \<open>What the runtime does with a paused tick: \<open>sync_cycle\<close> returns the checkpoint, so
  \<open>_cycle\<close> goes on to verify it and, when it is valid, hands it to the plugin dispatcher
  with an empty list of deltas, exactly as in a tick that found no new delta.\<close>

lemma paused_cycle_dispatches:
  assumes latest: "store_get_latest_checkpoint store = Some cp"
    and differs: "checkpoint_epoch (cp_manifest cp) \<noteq> epoch self"
    and detail: "\<forall>r. recompute_record (cp_manifest cp) = Some r \<longrightarrow> valid_recompute_record r"
    and over: "max_epoch_bumps_per_day self \<le> bumps_within now 86400 self \<or>
      max_epoch_bumps_per_week self \<le> bumps_within now 604800 self"
    and ok: "valid (verify_checkpoint ch kv hk cp)"
  shows "fst (cycle ch kv hk now store self) =
     Some \<lparr>ctx_checkpoint = cp, ctx_deltas = [], accumulator_state = accumulator self\<rparr>"
proof -
  have "sync_cycle now store self =
      ((Some cp, []), self\<lparr>latest_deltas := [], latest_checkpoint := Some cp\<rparr>)"
    using epoch_change_paused_sync [OF latest differs detail over] .
  then show ?thesis using ok by (simp add: cycle_def Let_def)
qed

section \<open>The filesystem store: names and their order\<close>

text \<open>Decimal digits, the fixed-width fields of \<open>strftime\<close>, and the order of the strings
  they make.\<close>

lemma digit_cases: "n < 10 \<Longrightarrow> n \<in> {0,1,2,3,4,5,6,7,8,9::nat}"
  by (simp, presburger)

lemma of_char_digit_char: "n < 10 \<Longrightarrow> of_char (digit_char n) = 48 + n"
  using digit_cases [of n] by (auto simp: digit_char_def)

lemma digit_char_less: "i < 10 \<Longrightarrow> j < 10 \<Longrightarrow> digit_char i < digit_char j \<longleftrightarrow> i < j"
  by (simp add: less_char_def of_char_digit_char)

lemma digit_char_eq:
  assumes "i < 10" "j < 10"
  shows "digit_char i = digit_char j \<longleftrightarrow> i = j"
proof
  assume "digit_char i = digit_char j"
  then have "(of_char (digit_char i) :: nat) = of_char (digit_char j)" by (rule arg_cong)
  then have "48 + i = 48 + j" by (simp only: of_char_digit_char [OF assms(1)] of_char_digit_char [OF assms(2)])
  then show "i = j" by simp
next
  assume "i = j" then show "digit_char i = digit_char j" by simp
qed

lemma pair_order:
  fixes a b :: nat
  shows "(a div 10 < b div 10 \<or> a div 10 = b div 10 \<and> a mod 10 < b mod 10) \<longleftrightarrow> a < b"
proof -
  have "a = 10 * (a div 10) + a mod 10" "b = 10 * (b div 10) + b mod 10" by simp_all
  moreover have "a mod 10 < 10" "b mod 10 < 10" by simp_all
  ultimately show ?thesis by linarith
qed

lemma pair_order100:
  fixes a b :: nat
  shows "(a div 100 < b div 100 \<or> a div 100 = b div 100 \<and> a mod 100 < b mod 100) \<longleftrightarrow> a < b"
proof -
  have "a = 100 * (a div 100) + a mod 100" "b = 100 * (b div 100) + b mod 100" by simp_all
  moreover have "a mod 100 < 100" "b mod 100 < 100" by simp_all
  ultimately show ?thesis by linarith
qed

lemma pair_eq:
  fixes a b :: nat
  shows "(a div k = b div k \<and> a mod k = b mod k) \<longleftrightarrow> a = b"
  by (metis div_mult_mod_eq)

lemma two_digits_small: "a < 100 \<Longrightarrow> two_digits a = [digit_char (a div 10), digit_char (a mod 10)]"
  by (simp add: two_digits_def less_mult_imp_div_less)

lemma two_digits_less:
  assumes "a < 100" "b < 100"
  shows "two_digits a < two_digits b \<longleftrightarrow> a < b"
proof -
  have "a div 10 < 10" "b div 10 < 10" using assms by (simp_all add: less_mult_imp_div_less)
  then show ?thesis
    using pair_order [of a b]
    by (simp add: two_digits_small assms digit_char_less digit_char_eq)
qed

lemma two_digits_eq:
  assumes "a < 100" "b < 100"
  shows "two_digits a = two_digits b \<longleftrightarrow> a = b"
proof -
  have "a div 10 < 10" "b div 10 < 10" using assms by (simp_all add: less_mult_imp_div_less)
  then show ?thesis
    using pair_eq [of a 10 b]
    by (simp add: two_digits_small assms digit_char_eq)
qed

lemma four_digits_split: "four_digits n = two_digits (n div 100) @ two_digits (n mod 100)"
proof -
  have a: "n div 100 div 10 = n div 1000"
    using div_mult2_eq [of n 100 10] by simp
  have "n mod 100 = 10 * (n div 10 mod 10) + n mod 10"
    using mod_mult2_eq [of n 10 10] by simp
  then have b: "n mod 100 div 10 = n div 10 mod 10" and c: "n mod 100 mod 10 = n mod 10"
    by simp_all
  show ?thesis by (simp add: four_digits_def two_digits_def a b c)
qed


lemma append_less_append:
  fixes a b :: string
  assumes "length a = length b"
  shows "a @ x < b @ y \<longleftrightarrow> a < b \<or> (a = b \<and> x < y)"
  using assms by (induction a b rule: list_induct2) auto

lemma length_two_digits: "length (two_digits n) = 2"
  by (simp add: two_digits_def)

lemma length_four_digits: "length (four_digits n) = 4"
  by (simp add: four_digits_def)

lemma length_strftime: "length (strftime t) = 15"
  by (simp add: strftime_def length_two_digits length_four_digits)

lemma four_digits_less:
  assumes "a < 10000" "b < 10000"
  shows "four_digits a < four_digits b \<longleftrightarrow> a < b"
proof -
  have r: "a div 100 < 100" "b div 100 < 100" "a mod 100 < 100" "b mod 100 < 100"
    using assms by (simp_all add: less_mult_imp_div_less)
  have "four_digits a < four_digits b \<longleftrightarrow>
      two_digits (a div 100) < two_digits (b div 100) \<or>
      two_digits (a div 100) = two_digits (b div 100) \<and>
      two_digits (a mod 100) < two_digits (b mod 100)"
    by (simp add: four_digits_split append_less_append length_two_digits)
  also have "\<dots> \<longleftrightarrow> a div 100 < b div 100 \<or> a div 100 = b div 100 \<and> a mod 100 < b mod 100"
    by (simp only: two_digits_less [OF r(1) r(2)] two_digits_eq [OF r(1) r(2)]
        two_digits_less [OF r(3) r(4)])
  also have "\<dots> \<longleftrightarrow> a < b" by (rule pair_order100)
  finally show ?thesis .
qed

lemma four_digits_eq:
  assumes "a < 10000" "b < 10000"
  shows "four_digits a = four_digits b \<longleftrightarrow> a = b"
proof -
  have r: "a div 100 < 100" "b div 100 < 100" "a mod 100 < 100" "b mod 100 < 100"
    using assms by (simp_all add: less_mult_imp_div_less)
  have "four_digits a = four_digits b \<longleftrightarrow>
      two_digits (a div 100) = two_digits (b div 100) \<and>
      two_digits (a mod 100) = two_digits (b mod 100)"
    by (simp add: four_digits_split length_two_digits)
  also have "\<dots> \<longleftrightarrow> a div 100 = b div 100 \<and> a mod 100 = b mod 100"
    by (simp only: two_digits_eq [OF r(1) r(2)] two_digits_eq [OF r(3) r(4)])
  also have "\<dots> \<longleftrightarrow> a = b" by (rule pair_eq)
  finally show ?thesis .
qed

lemma valid_datetime_bounds:
  assumes "valid_datetime t"
  shows "year t < 10000" "month t < 100" "day t < 100" "hour t < 100" "minute t < 100"
    "second t < 100"
  using assms by (simp_all add: valid_datetime_def)

lemma strftime_less:
  assumes s: "valid_datetime s" and t: "valid_datetime t"
  shows "strftime s < strftime t \<longleftrightarrow> to_second s < to_second t"
  by (simp add: strftime_def to_second_def append_less_append length_two_digits length_four_digits
      four_digits_less four_digits_eq two_digits_less two_digits_eq
      valid_datetime_bounds [OF s] valid_datetime_bounds [OF t])
     auto

lemma strftime_eq:
  assumes s: "valid_datetime s" and t: "valid_datetime t"
  shows "strftime s = strftime t \<longleftrightarrow> to_second s = to_second t"
  by (simp add: strftime_def to_second_def length_two_digits length_four_digits
      four_digits_eq two_digits_eq
      valid_datetime_bounds [OF s] valid_datetime_bounds [OF t])

lemma str_nat_nonempty: "str_nat n \<noteq> []" "[] \<noteq> str_nat n"
  by (subst str_nat.simps, simp)+

lemma str_nat_inj: "str_nat m = str_nat n \<Longrightarrow> m = n"
proof (induction m arbitrary: n rule: str_nat.induct)
  case (1 m)
  show ?case
  proof (cases "m < 10")
    case m: True
    show ?thesis
    proof (cases "n < 10")
      case True
      with m "1.prems" show ?thesis
        by (simp add: str_nat.simps [of m] str_nat.simps [of n] digit_char_eq)
    next
      case False
      with m "1.prems" show ?thesis
        by (simp add: str_nat.simps [of m] str_nat.simps [of n] str_nat_nonempty)
    qed
  next
    case m: False
    show ?thesis
    proof (cases "n < 10")
      case True
      with m "1.prems" [symmetric] show ?thesis
        by (simp add: str_nat.simps [of m] str_nat.simps [of n] str_nat_nonempty)
    next
      case False
      with m "1.prems" have e: "str_nat (m div 10) = str_nat (n div 10)"
        and d: "digit_char (m mod 10) = digit_char (n mod 10)"
        by (simp_all add: str_nat.simps [of m] str_nat.simps [of n])
      from "1.IH" [OF m e] have "m div 10 = n div 10" .
      moreover from d have "m mod 10 = n mod 10" by (simp add: digit_char_eq)
      ultimately show ?thesis by (metis div_mult_mod_eq)
    qed
  qed
qed

lemma digit_char_not_minus: "k < 10 \<Longrightarrow> digit_char k \<noteq> CHR ''-''"
  using digit_cases [of k] by (auto simp: digit_char_def)

lemma str_nat_hd: "hd (str_nat n) \<noteq> CHR ''-''"
proof (induction n rule: str_nat.induct)
  case (1 n)
  show ?case
  proof (cases "n < 10")
    case True
    then show ?thesis by (simp add: str_nat.simps [of n] digit_char_not_minus)
  next
    case False
    then show ?thesis
      using "1.IH" by (simp add: str_nat.simps [of n] str_nat_nonempty)
  qed
qed

lemma str_int_inj: "str_int i = str_int j \<Longrightarrow> i = j"
proof -
  assume e: "str_int i = str_int j"
  have neg: "\<And>a b. CHR ''-'' # str_nat a \<noteq> str_nat b"
    using str_nat_hd by (metis list.sel(1))
  show ?thesis
  proof (cases "i < 0"; cases "j < 0")
    assume "i < 0" "j < 0"
    with e have "nat (- i) = nat (- j)" by (simp add: str_int_def str_nat_inj)
    with \<open>i < 0\<close> \<open>j < 0\<close> show ?thesis by simp
  next
    assume "i < 0" "\<not> j < 0"
    with e neg show ?thesis by (simp add: str_int_def)
  next
    assume "\<not> i < 0" "j < 0"
    with e neg [of "nat (- j)" "nat i"] show ?thesis by (simp add: str_int_def)
  next
    assume "\<not> i < 0" "\<not> j < 0"
    with e have "nat i = nat j" by (simp add: str_int_def str_nat_inj)
    with \<open>\<not> i < 0\<close> \<open>\<not> j < 0\<close> show ?thesis by simp
  qed
qed

lemma epoch_dir_name_inj: "epoch_dir_name i = epoch_dir_name j \<longleftrightarrow> i = j"
  by (auto simp: epoch_dir_name_def dest: str_int_inj)

lemma delta_id_after:
  assumes "valid_datetime (window_start (d_manifest d))" "valid_datetime s"
  shows "''d_'' @ strftime s < delta_id d \<longleftrightarrow>
         to_second s \<le> to_second (window_start (d_manifest d))"
proof -
  let ?a = "strftime s" and ?b = "strftime (window_start (d_manifest d))"
  let ?r = "''_'' @ strftime (window_end (d_manifest d))"
  have "''d_'' @ ?a < delta_id d \<longleftrightarrow> ?a @ [] < ?b @ ?r"
    by (simp add: delta_id_def)
  also have "\<dots> \<longleftrightarrow> ?a < ?b \<or> ?a = ?b \<and> [] < ?r"
    by (rule append_less_append) (simp add: length_strftime)
  also have "\<dots> \<longleftrightarrow> ?a < ?b \<or> ?a = ?b" by simp
  also have "\<dots> \<longleftrightarrow> to_second s < to_second (window_start (d_manifest d)) \<or>
      to_second s = to_second (window_start (d_manifest d))"
    by (simp only: strftime_less [OF assms(2) assms(1)] strftime_eq [OF assms(2) assms(1)])
  finally show ?thesis by (simp add: le_less)
qed

section \<open>The filesystem store: what the delta tree holds\<close>

lemma set_alist_update: "set (AList.update k v al) \<subseteq> insert (k, v) (set al)"
  by (induction al) auto

lemma alist_update_mem: "(k, v) \<in> set (AList.update k v al)"
  by (induction al) auto

lemma list_all_update:
  "P (k, v) \<Longrightarrow> list_all P al \<Longrightarrow> list_all P (AList.update k v al)"
  by (induction al) auto

lemma store_wf_empty: "store_wf empty_store"
  by (simp add: store_wf_def empty_store_def)

lemma store_wf_prune: "store_wf self \<Longrightarrow> store_wf (prune cutoff self)"
  unfolding store_wf_def prune_def Let_def
  by (auto simp: list_all_iff distinct_map_filter o_def case_prod_unfold
      intro!: distinct_map_filter)


lemma store_wf_put_checkpoint: "store_wf self \<Longrightarrow> store_wf (snd (put_checkpoint cutoff cp self))"
proof -
  assume wf: "store_wf self"
  have "store_wf (self\<lparr>checkpoints_dir := c\<rparr>)" for c
    using wf by (simp add: store_wf_def)
  then show ?thesis
    by (simp add: put_checkpoint_def Let_def store_wf_prune)
qed

lemma epoch_dir_wf:
  assumes "store_wf self" "map_of (deltas_dir self) dn = Some ds"
  shows "distinct (map fst ds) \<and> list_all (delta_entry_ok dn) ds"
  using assms by (auto simp: store_wf_def list_all_iff dest!: map_of_SomeD)

lemma store_wf_put_delta:
  assumes wf: "store_wf self" and ok: "valid_datetime (window_start (d_manifest delta))"
  shows "store_wf (snd (put_delta cutoff delta self))"
proof -
  let ?dn = "epoch_dir_name (checkpoint_epoch (d_manifest delta))"
  let ?old = "case map_of (deltas_dir self) ?dn of Some ds \<Rightarrow> ds | None \<Rightarrow> []"
  let ?new = "AList.update (delta_id delta) delta ?old"
  have old: "distinct (map fst ?old) \<and> list_all (delta_entry_ok ?dn) ?old"
    using epoch_dir_wf [OF wf] by (auto split: option.splits)
  have new: "distinct (map fst ?new) \<and> list_all (delta_entry_ok ?dn) ?new"
  proof
    show "distinct (map fst ?new)" using old by (simp add: distinct_update)
    have "delta_entry_ok ?dn (delta_id delta, delta)"
      using ok by (simp add: delta_entry_ok_def)
    then show "list_all (delta_entry_ok ?dn) ?new"
      using old by (simp add: list_all_update)
  qed
  have "store_wf (self\<lparr>deltas_dir := AList.update ?dn ?new (deltas_dir self)\<rparr>)"
    using wf new by (simp add: store_wf_def distinct_update list_all_update)
  then show ?thesis
    by (simp add: put_delta_def Let_def store_wf_prune)
qed

lemma stored_deltas_iff:
  "d \<in> set (stored_deltas self) \<longleftrightarrow> (\<exists>dn ds i. (dn, ds) \<in> set (deltas_dir self) \<and> (i, d) \<in> set ds)"
  by (force simp: stored_deltas_def)

lemma list_deltas_sorted: "sorted (list_deltas self e since)"
  by (simp add: list_deltas_def Let_def sorted_wrt_filter split: option.splits)

lemma stored_entry_ok:
  assumes "store_wf self" "(dn, ds) \<in> set (deltas_dir self)" "(i, d) \<in> set ds"
  shows "delta_entry_ok dn (i, d)"
proof -
  from assms(1,2) have "list_all (delta_entry_ok dn) ds"
    by (fastforce simp: store_wf_def list_all_iff)
  with assms(3) show ?thesis by (simp add: list_all_iff)
qed

lemma list_deltas_distinct:
  assumes "store_wf self"
  shows "distinct (list_deltas self e since)"
  using epoch_dir_wf [OF assms]
  by (auto simp: list_deltas_def Let_def split: option.splits)

lemma epoch_dir_members:
  assumes wf: "store_wf self"
  shows "(\<exists>ds. map_of (deltas_dir self) (epoch_dir_name e) = Some ds \<and> (i, d) \<in> set ds) \<longleftrightarrow>
         d \<in> set (stored_deltas self) \<and> checkpoint_epoch (d_manifest d) = e \<and> i = delta_id d"
proof
  assume "\<exists>ds. map_of (deltas_dir self) (epoch_dir_name e) = Some ds \<and> (i, d) \<in> set ds"
  then obtain ds where m: "map_of (deltas_dir self) (epoch_dir_name e) = Some ds"
    and mem: "(i, d) \<in> set ds" by blast
  from epoch_dir_wf [OF wf m] mem have "delta_entry_ok (epoch_dir_name e) (i, d)"
    by (auto simp: list_all_iff)
  then have "i = delta_id d" "checkpoint_epoch (d_manifest d) = e"
    by (simp_all add: delta_entry_ok_def epoch_dir_name_inj)
  moreover from m mem have "d \<in> set (stored_deltas self)"
    by (auto simp: stored_deltas_iff dest: map_of_SomeD)
  ultimately show "d \<in> set (stored_deltas self) \<and> checkpoint_epoch (d_manifest d) = e \<and>
      i = delta_id d" by simp
next
  assume a: "d \<in> set (stored_deltas self) \<and> checkpoint_epoch (d_manifest d) = e \<and> i = delta_id d"
  then obtain dn ds j where dir: "(dn, ds) \<in> set (deltas_dir self)" and mem: "(j, d) \<in> set ds"
    by (auto simp: stored_deltas_iff)
  have ok: "delta_entry_ok dn (j, d)" by (rule stored_entry_ok [OF wf dir mem])
  with a have "dn = epoch_dir_name e" "j = i" by (simp_all add: delta_entry_ok_def)
  moreover from wf dir have "map_of (deltas_dir self) dn = Some ds"
    by (simp add: store_wf_def)
  ultimately show "\<exists>ds. map_of (deltas_dir self) (epoch_dir_name e) = Some ds \<and> (i, d) \<in> set ds"
    using mem by auto
qed

lemma list_deltas_set:
  "i \<in> set (list_deltas self e since) \<longleftrightarrow>
     (\<exists>ds d. map_of (deltas_dir self) (epoch_dir_name e) = Some ds \<and> (i, d) \<in> set ds \<and>
        (\<forall>s. since = Some s \<longrightarrow> ''d_'' @ strftime s < i))"
proof (cases "map_of (deltas_dir self) (epoch_dir_name e)")
  case None
  then show ?thesis by (simp add: list_deltas_def)
next
  case (Some ds)
  show ?thesis
  proof (cases since)
    case None
    have "i \<in> fst ` set ds \<longleftrightarrow> (\<exists>d. (i, d) \<in> set ds)" by force
    with None Some show ?thesis by (simp add: list_deltas_def)
  next
    case (Some s)
    have "i \<in> fst ` set ds \<longleftrightarrow> (\<exists>d. (i, d) \<in> set ds)" by force
    with Some \<open>map_of (deltas_dir self) (epoch_dir_name e) = Some ds\<close> show ?thesis
      by (simp add: list_deltas_def Let_def del: append.simps)
  qed
qed

lemma stored_delta_valid:
  assumes wf: "store_wf self" and d: "d \<in> set (stored_deltas self)"
  shows "valid_datetime (window_start (d_manifest d))"
proof -
  from d obtain dn ds i where "(dn, ds) \<in> set (deltas_dir self)" "(i, d) \<in> set ds"
    unfolding stored_deltas_iff by blast
  from stored_entry_ok [OF wf this] show ?thesis by (simp add: delta_entry_ok_def)
qed

text \<open>
  C9, as the code has it. The filter of \<open>list_deltas\<close> compares the delta id, which begins
  with the start of the window, against \<open>d_\<close> followed by \<open>since\<close>. In a store that only
  \<open>put_delta\<close> has written to, for every epoch and optional valid \<open>since\<close>, \<open>list_deltas\<close>
  returns in ascending order and without repetition the ids of exactly the stored deltas of
  that epoch whose \<open>window_start\<close>, to the second, is not before \<open>since\<close>, to the second; all
  ids of the epoch when \<open>since\<close> is absent.
\<close>

theorem list_deltas_by_window_start:
  assumes wf: "store_wf self"
    and since_ok: "\<forall>s. since = Some s \<longrightarrow> valid_datetime s"
  shows "sorted (list_deltas self e since) \<and> distinct (list_deltas self e since) \<and>
         set (list_deltas self e since) =
           delta_id ` {d \<in> set (stored_deltas self). checkpoint_epoch (d_manifest d) = e \<and>
             (\<forall>s. since = Some s \<longrightarrow> to_second s \<le> to_second (window_start (d_manifest d)))}"
proof (intro conjI)
  show "sorted (list_deltas self e since)" by (rule list_deltas_sorted)
  show "distinct (list_deltas self e since)" by (rule list_deltas_distinct [OF wf])
  show "set (list_deltas self e since) =
           delta_id ` {d \<in> set (stored_deltas self). checkpoint_epoch (d_manifest d) = e \<and>
             (\<forall>s. since = Some s \<longrightarrow> to_second s \<le> to_second (window_start (d_manifest d)))}"
    (is "?L = ?R")
  proof (intro equalityI subsetI)
    fix i assume "i \<in> ?L"
    then obtain ds d where m: "map_of (deltas_dir self) (epoch_dir_name e) = Some ds"
      and mem: "(i, d) \<in> set ds"
      and bound: "\<forall>s. since = Some s \<longrightarrow> ''d_'' @ strftime s < i"
      unfolding list_deltas_set by blast
    from m mem have "\<exists>ds. map_of (deltas_dir self) (epoch_dir_name e) = Some ds \<and> (i, d) \<in> set ds"
      by blast
    then have st: "d \<in> set (stored_deltas self)" and ep: "checkpoint_epoch (d_manifest d) = e"
      and id: "i = delta_id d"
      unfolding epoch_dir_members [OF wf] by simp_all
    have "to_second s \<le> to_second (window_start (d_manifest d))" if s: "since = Some s" for s
    proof -
      from s since_ok have "valid_datetime s" by simp
      from delta_id_after [OF stored_delta_valid [OF wf st] this] bound s id
      show ?thesis by simp
    qed
    with st ep id show "i \<in> ?R" by simp
  next
    fix i assume "i \<in> ?R"
    then obtain d where st: "d \<in> set (stored_deltas self)"
      and ep: "checkpoint_epoch (d_manifest d) = e" and id: "i = delta_id d"
      and cond: "\<forall>s. since = Some s \<longrightarrow> to_second s \<le> to_second (window_start (d_manifest d))"
      by blast
    from st ep id have "\<exists>ds. map_of (deltas_dir self) (epoch_dir_name e) = Some ds \<and> (i, d) \<in> set ds"
      unfolding epoch_dir_members [OF wf] by simp
    then obtain ds where m: "map_of (deltas_dir self) (epoch_dir_name e) = Some ds"
      and mem: "(i, d) \<in> set ds" by blast
    have "''d_'' @ strftime s < i" if s: "since = Some s" for s
    proof -
      from s since_ok have "valid_datetime s" by simp
      from delta_id_after [OF stored_delta_valid [OF wf st] this] cond s id
      show ?thesis by simp
    qed
    with m mem show "i \<in> ?L" unfolding list_deltas_set by blast
  qed
qed

lemma strftime_clock:
  "strftime (clock 10) = ''20240101T100000''"
  "strftime (clock 11) = ''20240101T110000''"
  "strftime (clock 12) = ''20240101T120000''"
  "strftime (clock 14) = ''20240101T140000''"
  by (simp_all add: strftime_def clock_def four_digits_def two_digits_def digit_char_def)

lemma strftime_cutoff0: "strftime cutoff0 = ''20231225T000000''"
  by (simp add: strftime_def cutoff0_def four_digits_def two_digits_def digit_char_def)

lemma delta_between_fields:
  "window_start (d_manifest (delta_between s e)) = s"
  "window_end (d_manifest (delta_between s e)) = e"
  "checkpoint_epoch (d_manifest (delta_between s e)) = 1"
  by (simp_all add: delta_between_def example_delta_def example_manifest_def)

lemma delta_ids:
  "delta_id (delta_between (clock 10) (clock 12)) = ''d_20240101T100000_20240101T120000''"
  "delta_id (delta_between (clock 12) (clock 14)) = ''d_20240101T120000_20240101T140000''"
  by (simp_all add: delta_id_def delta_between_fields strftime_clock)

lemma epoch_dir_name_1: "epoch_dir_name 1 = ''epoch_1''"
  by (simp add: epoch_dir_name_def str_int_def str_nat.simps digit_char_def)

lemma delta_parts:
  "delta_parts1 ''d_20240101T100000_20240101T120000'' = Some ''20240101T100000''"
  "delta_parts1 ''d_20240101T120000_20240101T140000'' = Some ''20240101T120000''"
  by (simp_all add: delta_parts1_def)

lemma delta_store_dir:
  "deltas_dir delta_store =
     [(''epoch_1'',
       [(''d_20240101T100000_20240101T120000'', delta_between (clock 10) (clock 12)),
        (''d_20240101T120000_20240101T140000'', delta_between (clock 12) (clock 14))])]"
  by (simp add: delta_store_def put_delta_def Let_def delta_ids delta_between_fields
      epoch_dir_name_1 empty_store_def prune_def delta_parts strftime_cutoff0)

lemma list_example:
  "list_deltas delta_store 1 (Some (clock 11)) = [''d_20240101T120000_20240101T140000'']"
  "list_deltas delta_store 1 None =
     [''d_20240101T100000_20240101T120000'', ''d_20240101T120000_20240101T140000'']"
  by (simp_all add: list_deltas_def Let_def delta_store_dir epoch_dir_name_1 strftime_clock)

lemma valid_clock: "h < 24 \<Longrightarrow> valid_datetime (clock h)"
  by (simp add: valid_datetime_def clock_def)

lemma delta_store_wf: "store_wf delta_store"
  unfolding delta_store_def
  by (intro store_wf_put_delta store_wf_empty) (simp_all add: delta_between_fields valid_clock)

text \<open>The example store holds the deltas 10:00--12:00 and 12:00--14:00 of epoch 1. Asked for
  the deltas since 11:00 it lists the second only.\<close>

theorem list_deltas_by_window_start_witness:
  "store_wf delta_store \<and> valid_datetime (clock 11) \<and>
   list_deltas delta_store 1 (Some (clock 11)) = [''d_20240101T120000_20240101T140000''] \<and>
   list_deltas delta_store 1 None =
     [''d_20240101T100000_20240101T120000'', ''d_20240101T120000_20240101T140000''] \<and>
   set (list_deltas delta_store 1 (Some (clock 11))) =
     delta_id ` {d \<in> set (stored_deltas delta_store). checkpoint_epoch (d_manifest d) = 1 \<and>
       (\<forall>s. Some (clock 11) = Some s \<longrightarrow>
          to_second s \<le> to_second (window_start (d_manifest d)))}"
proof -
  have v: "\<forall>s. Some (clock 11) = Some s \<longrightarrow> valid_datetime s"
    by (simp add: valid_clock)
  note t = list_deltas_by_window_start [OF delta_store_wf v, of 1]
  have l: "list_deltas delta_store 1 (Some (clock 11)) = [''d_20240101T120000_20240101T140000'']"
    "list_deltas delta_store 1 None =
       [''d_20240101T100000_20240101T120000'', ''d_20240101T120000_20240101T140000'']"
    by (simp_all add: list_deltas_def Let_def delta_store_dir epoch_dir_name_1 strftime_clock)
  from t have "set (list_deltas delta_store 1 (Some (clock 11))) =
     delta_id ` {d \<in> set (stored_deltas delta_store). checkpoint_epoch (d_manifest d) = 1 \<and>
       (\<forall>s. Some (clock 11) = Some s \<longrightarrow>
          to_second s \<le> to_second (window_start (d_manifest d)))}"
    by blast
  with l delta_store_wf valid_clock [of 11] show ?thesis by simp
qed

text \<open>Selecting by \<open>window_end\<close> instead is not what the code does. The delta 10:00--12:00 is stored under
  epoch 1 and ends strictly after 11:00, yet \<open>list_deltas\<close> since 11:00 leaves it out.\<close>

theorem list_deltas_window_end_counterexample:
  "delta_between (clock 10) (clock 12) \<in> set (stored_deltas delta_store) \<and>
   checkpoint_epoch (d_manifest (delta_between (clock 10) (clock 12))) = 1 \<and>
   dt_less (clock 11) (window_end (d_manifest (delta_between (clock 10) (clock 12)))) \<and>
   delta_id (delta_between (clock 10) (clock 12))
     \<notin> set (list_deltas delta_store 1 (Some (clock 11)))"
proof -
  have "list_deltas delta_store 1 (Some (clock 11)) = [''d_20240101T120000_20240101T140000'']"
    by (simp add: list_deltas_def Let_def delta_store_dir epoch_dir_name_1 strftime_clock)
  then show ?thesis
    by (simp add: stored_deltas_def delta_store_dir delta_between_fields delta_ids)
       (simp add: dt_less_def dt_key_def clock_def)
qed

section \<open>The filesystem store: the latest checkpoint\<close>

lemma strftime_t0: "strftime t0 = ''20240101T000000''"
  by (simp add: strftime_def t0_def four_digits_def two_digits_def digit_char_def)

lemma strftime_t1: "strftime t1 = ''20240102T000000''"
  by (simp add: strftime_def t1_def four_digits_def two_digits_def digit_char_def)

lemma str_int_9: "str_int 9 = ''9''" "str_int 10 = ''10''"
  by (simp_all add: str_int_def str_nat.simps digit_char_def)

lemma checkpoint_ids: "checkpoint_id (checkpoint_of_epoch 9 t0) = ''epoch_9_20240101T000000''"
  "checkpoint_id (checkpoint_of_epoch 10 t1) = ''epoch_10_20240102T000000''"
  by (simp_all add: checkpoint_id_def checkpoint_of_epoch_def str_int_9 strftime_t0 strftime_t1)

lemma checkpoint_parts: "checkpoint_parts2 ''epoch_9_20240101T000000'' = Some ''20240101T000000''"
   "checkpoint_parts2 ''epoch_10_20240102T000000'' = Some ''20240102T000000''"
  by (simp_all add: checkpoint_parts2_def)

lemma chain_none: "chain_params (checkpoint_of_epoch e w) = None"
  by (simp add: checkpoint_of_epoch_def example_checkpoint_def)

lemma store_9_10_dir:
  "checkpoints_dir store_9_10 =
     [(''epoch_9_20240101T000000'', checkpoint_of_epoch 9 t0),
      (''epoch_10_20240102T000000'', checkpoint_of_epoch 10 t1)]"
  by (simp add: store_9_10_def put_checkpoint_def Let_def checkpoint_ids empty_store_def prune_def checkpoint_parts
      strftime_cutoff0 chain_none)



text \<open>What \<open>get_latest_checkpoint\<close> returns is the checkpoint whose directory name is the
  greatest string.\<close>

lemma sorted_last_Max:
  fixes ys :: "'a::linorder list"
  shows "sorted ys \<Longrightarrow> ys \<noteq> [] \<Longrightarrow> last ys = Max (set ys)"
proof (induction ys)
  case Nil
  then show ?case by simp
next
  case (Cons y ys)
  show ?case
  proof (cases "ys = []")
    case True
    then show ?thesis by simp
  next
    case False
    with Cons have l: "last ys = Max (set ys)" by simp
    have "Max (set ys) \<in> set ys" using False by (intro Max_in) simp_all
    with Cons.prems have "y \<le> Max (set ys)" by auto
    then have "Max (insert y (set ys)) = Max (set ys)"
      using False by (simp add: max_def)
    with l False show ?thesis by simp
  qed
qed

lemma get_latest_checkpoint_max_name:
  assumes "checkpoints_dir self \<noteq> []"
  shows "get_latest_checkpoint self =
     map_of (checkpoints_dir self) (Max (set (map fst (checkpoints_dir self))))"
proof -
  let ?names = "map fst (checkpoints_dir self)"
  have "length (sort ?names) = length (checkpoints_dir self)" by simp
  with assms have ne: "sort ?names \<noteq> []" by (metis length_0_conv)
  have "hd (rev (sort ?names)) = last (sort ?names)" using ne by (simp add: hd_rev)
  also have "\<dots> = Max (set (sort ?names))"
    by (rule sorted_last_Max [OF _ ne]) simp
  finally have "hd (rev (sort ?names)) = Max (set ?names)" by simp
  then show ?thesis
    using ne by (cases "rev (sort ?names)") (simp_all add: get_latest_checkpoint_def)
qed

text \<open>
  C8 at a failing input. A checkpoint of epoch 9 with window end 2024-01-01 is stored, then a
  checkpoint of epoch 10 with window end 2024-01-02. The second has the higher epoch and
  the later window, but the directory name \<open>epoch_9_...\<close> sorts after \<open>epoch_10_...\<close>, and
  \<open>get_latest_checkpoint\<close> returns the checkpoint of epoch 9.
\<close>

theorem get_latest_checkpoint_epoch_9_over_10:
  "map fst (checkpoints_dir store_9_10) =
     [''epoch_9_20240101T000000'', ''epoch_10_20240102T000000''] \<and>
   get_latest_checkpoint store_9_10 = Some (checkpoint_of_epoch 9 t0) \<and>
   checkpoint_epoch (cp_manifest (checkpoint_of_epoch 9 t0)) = 9 \<and>
   checkpoint_epoch (cp_manifest (checkpoint_of_epoch 10 t1)) = 10 \<and>
   dt_less (window_end (cp_manifest (checkpoint_of_epoch 9 t0)))
     (window_end (cp_manifest (checkpoint_of_epoch 10 t1)))"
  by (simp add: get_latest_checkpoint_def store_9_10_dir)
     (simp add: checkpoint_of_epoch_def dt_less_def dt_key_def t0_def t1_def)

section \<open>Weight computation: the all-zero case\<close>

lemma filter_eq_upt: "b < n \<Longrightarrow> filter (\<lambda>j. j = b) [0..<n] = [b]"
proof (induction n)
  case 0
  then show ?case by simp
next
  case (Suc n)
  show ?case
  proof (cases "b = n")
    case True
    have "filter (\<lambda>j. j = n) [0..<n] = []" by (simp add: filter_empty_conv)
    with True show ?thesis by simp
  next
    case False
    with Suc show ?thesis by simp
  qed
qed

lemma unit_vector_nonzeros:
  assumes "b < n"
  shows "filter (\<lambda>j. (replicate n (0::real))[b := 1] ! j > 0) [0..<n] = [b]"
proof -
  have "filter (\<lambda>j. (replicate n (0::real))[b := 1] ! j > 0) [0..<n] = filter (\<lambda>j. j = b) [0..<n]"
  proof (rule filter_cong)
    fix j assume "j \<in> set [0..<n]"
    then have "j < n" by simp
    then show "(0 < (replicate n (0::real))[b := 1] ! j) = (j = b)"
      by (cases "j = b") (simp_all add: nth_list_update)
  qed simp
  with assms show ?thesis by (simp add: filter_eq_upt)
qed

lemma normalize_max_weight_single: "normalize_max_weight [1] limit = [1]"
  by (simp add: normalize_max_weight_def Let_def)

lemma py_round_int: "py_round (of_int k) = k"
  by (simp add: py_round_def Let_def)

lemma convert_single: "convert_to_uint16 [u] [1] = ([u], [65535])"
proof -
  have "py_round 65535 = 65535" using py_round_int [of 65535] by simp
  then show ?thesis by (simp add: convert_to_uint16_def Let_def U16_MAX_def)
qed

lemma raw_weight_vector_all_zero:
  assumes "l1_norm scores = 0"
  shows "raw_weight_vector scores br chain =
     (case burn_uid chain of
        Some b \<Rightarrow> if 0 \<le> b \<and> b < n_neurons chain
                  then Some ((replicate (nat (n_neurons chain)) 0)[nat b := 1]) else None
      | None \<Rightarrow> None)"
  using assms by (simp add: raw_weight_vector_def Let_def split: option.splits)

lemma process_unit_vector:
  assumes b: "0 \<le> b" "b < n_neurons chain"
  shows "raw_weights (process_weights ((replicate (nat (n_neurons chain)) 0)[nat b := 1]) chain r)
           = [(b, 1)] \<and>
         (min_allowed_weights chain \<le> 1 \<longrightarrow>
            uids (process_weights ((replicate (nat (n_neurons chain)) 0)[nat b := 1]) chain r) = [b] \<and>
            uint16_weights (process_weights ((replicate (nat (n_neurons chain)) 0)[nat b := 1]) chain r)
              = [65535])"
proof -
  let ?n = "nat (n_neurons chain)"
  let ?v = "(replicate ?n (0::real))[nat b := 1]"
  have lt: "nat b < ?n" using b by simp
  have nz: "filter (\<lambda>j. ?v ! j > 0) [0..<?n] = [nat b]" by (rule unit_vector_nonzeros [OF lt])
  have at: "?v ! nat b = 1" using lt by simp
  show ?thesis
    using b
    by (simp add: process_weights_def Let_def nz at normalize_max_weight_single convert_single
        split: prod.splits)
qed

text \<open>
  C5. Let the metrics be non-empty and the L1 norm of the dense skill-score vector be zero
  (the norm is never \<open>NaN\<close> after \<open>nan_to_num\<close>). Then \<open>compute_weights\<close> returns a result.
  If \<open>burn_uid\<close> is present and in range, the weight vector is allocated to \<open>burn_uid\<close>
  entirely: it is the unit vector at \<open>burn_uid\<close>, recorded as the single raw weight
  \<open>burn_uid \<mapsto> 1\<close>, and when no more than one weight is required
  (\<open>min_allowed_weights \<le> 1\<close>) the emitted result is \<open>burn_uid\<close> alone with weight 65535.
  Otherwise the result has empty \<open>uids\<close> and empty \<open>uint16_weights\<close>.
\<close>

theorem all_zero_scores_go_to_burn:
  assumes ne: "miner_metrics \<noteq> []" and n: "0 \<le> n_neurons chain"
    and zero: "l1_norm (scores_vector zl pc miner_metrics cfg chain) = 0"
  shows "\<exists>r. compute_weights zl pc miner_metrics cfg chain = Inr r \<and>
     (case burn_uid chain of
        Some b \<Rightarrow>
          if 0 \<le> b \<and> b < n_neurons chain then
            raw_weight_vector (scores_vector zl pc miner_metrics cfg chain)
              (cfg_get cfg ''weight_emission'' ''burn_rate'' 0.9) chain
              = Some ((replicate (nat (n_neurons chain)) 0)[nat b := 1]) \<and>
            raw_weights r = [(b, 1)] \<and>
            (min_allowed_weights chain \<le> 1 \<longrightarrow> uids r = [b] \<and> uint16_weights r = [65535])
          else uids r = [] \<and> uint16_weights r = []
      | None \<Rightarrow> uids r = [] \<and> uint16_weights r = [])"
proof -
  let ?scores = "scores_vector zl pc miner_metrics cfg chain"
  let ?br = "cfg_get cfg ''weight_emission'' ''burn_rate'' 0.9"
  note rv = raw_weight_vector_all_zero [OF zero, of ?br chain]
  show ?thesis
  proof (cases "burn_uid chain")
    case None
    with rv have "raw_weight_vector ?scores ?br chain = None" by simp
    with None ne n show ?thesis
      by (simp add: compute_weights_def Let_def empty_result_def)
  next
    case (Some b)
    show ?thesis
    proof (cases "0 \<le> b \<and> b < n_neurons chain")
      case False
      with rv Some have "raw_weight_vector ?scores ?br chain = None" by simp
      with False Some ne n show ?thesis
        by (simp add: compute_weights_def Let_def empty_result_def)
    next
      case True
      then have b: "0 \<le> b" "b < n_neurons chain" by simp_all
      from rv Some True
      have r: "raw_weight_vector ?scores ?br chain =
          Some ((replicate (nat (n_neurons chain)) 0)[nat b := 1])" by simp
      from True Some ne n process_unit_vector [OF b] show ?thesis
        by (simp add: compute_weights_def Let_def r)
    qed
  qed
qed

lemma zero_miner_scores:
  "scores_vector zero_normalizer zero_normalizer [zero_miner] \<lparr>params = []\<rparr> example_chain
     = [0, 0, 0, 0, 0]"
  by (simp add: scores_vector_def skill_table_def scatter_scores_def Let_def cfg_get_def
      clip_def zero_normalizer_def zero_miner_def example_chain_def)
     (simp add: eval_nat_numeral)


text \<open>The example miner has skill score zero. With burn uid 0 everything goes to uid 0;
  without a burn uid nothing is emitted.\<close>

theorem all_zero_scores_go_to_burn_witness:
  "(\<exists>r. compute_weights zero_normalizer zero_normalizer [zero_miner] \<lparr>params = []\<rparr> example_chain
        = Inr r \<and>
      raw_weights r = [(0, 1)] \<and> uids r = [0] \<and> uint16_weights r = [65535]) \<and>
   (\<exists>r. compute_weights zero_normalizer zero_normalizer [zero_miner] \<lparr>params = []\<rparr>
        (example_chain\<lparr>burn_uid := None\<rparr>) = Inr r \<and>
      uids r = [] \<and> uint16_weights r = [])"
proof -
  let ?cfg = "\<lparr>params = []\<rparr> :: ScoringConfigSnapshot"
  have ne: "[zero_miner] \<noteq> []" by simp
  have n: "0 \<le> n_neurons example_chain" "0 \<le> n_neurons (example_chain\<lparr>burn_uid := None\<rparr>)"
    by (simp_all add: example_chain_def)
  have same: "scores_vector zero_normalizer zero_normalizer [zero_miner] ?cfg
      (example_chain\<lparr>burn_uid := None\<rparr>) =
      scores_vector zero_normalizer zero_normalizer [zero_miner] ?cfg example_chain"
    by (simp add: scores_vector_def)
  have zero: "l1_norm (scores_vector zero_normalizer zero_normalizer [zero_miner] ?cfg
      example_chain) = 0"
    by (simp add: zero_miner_scores l1_norm_def)
  then have zero': "l1_norm (scores_vector zero_normalizer zero_normalizer [zero_miner] ?cfg
      (example_chain\<lparr>burn_uid := None\<rparr>)) = 0"
    by (simp only: same)
  have f: "burn_uid example_chain = Some 0" "n_neurons example_chain = 5"
    "min_allowed_weights example_chain = 1"
    by (simp_all add: example_chain_def)
  from all_zero_scores_go_to_burn [OF ne n(1) zero]
  have a: "\<exists>r. compute_weights zero_normalizer zero_normalizer [zero_miner] ?cfg example_chain
        = Inr r \<and> raw_weights r = [(0, 1)] \<and> uids r = [0] \<and> uint16_weights r = [65535]"
    by (simp add: f) blast
  from all_zero_scores_go_to_burn [OF ne n(2) zero']
  have b: "\<exists>r. compute_weights zero_normalizer zero_normalizer [zero_miner] ?cfg
        (example_chain\<lparr>burn_uid := None\<rparr>) = Inr r \<and> uids r = [] \<and> uint16_weights r = []"
    by simp
  from a b show ?thesis by blast
qed

text \<open>Step 8 still follows the all-zero case. With two neurons, a weight limit of one half
  and two weights required, the unit vector at the burn uid is padded and both uids are
  emitted with equal weight.\<close>

lemma all_zero_padded_example:
  "process_weights [1, 0]
     \<lparr>burn_rate = 0.9, burn_uid = Some 0, max_weight_limit = 0.5, min_allowed_weights = 2,
      n_neurons = 2\<rparr> empty_result =
   empty_result\<lparr>raw_weights := [(0, 1)], uids := [0, 1], uint16_weights := [65535, 65535]\<rparr>"
proof -
  have r: "py_round 65535 = 65535" using py_round_int [of 65535] by simp
  have u: "[0..<2] = [0, Suc 0]" by (simp add: eval_nat_numeral)
  show ?thesis
    by (simp add: process_weights_def Let_def u normalize_max_weight_def convert_to_uint16_def
        U16_MAX_def r)
qed

section \<open>The paused tick of the auditor\<close>

lemma epoch2_valid:
  "valid (verify_checkpoint toy_hash toy_verify ''5Primary'' (epoch2_checkpoint example_record))"
  by (simp add: verify_checkpoint_def verify_def Let_def check_section_def
      compute_section_hash_def verify_manifest_def manifest_signing_payload_def
      LEDGER_SCHEMA_VERSION_def epoch2_checkpoint_def example_checkpoint_def
      example_manifest_def toy_hash_def toy_verify_def digitvalue_def is_space_def
      eval_nat_numeral)

lemma example_metrics:
  "map (\<lambda>acc. snd (from_accumulator acc)) [example_entry] =
     [\<lparr>m_uid = 1, m_hotkey = ''hk1'', m_fq_raw = 3 / 4, m_pss_mean = 0, m_es_adj = 1 / 8,
       m_mes_mean = 1 / 2, m_cal_score = 1 / 4, m_sharp_score = 3 / 4, m_sos_score = 1 / 2,
       m_lead_score = 1 / 2, m_brier_mean = 1 / 5\<rparr>]"
  by (simp add: from_accumulator_def Let_def derive_means_def example_entry_def)

lemma example_scores:
  "scores_vector zero_normalizer zero_normalizer
     [\<lparr>m_uid = 1, m_hotkey = ''hk1'', m_fq_raw = 3 / 4, m_pss_mean = 0, m_es_adj = 1 / 8,
       m_mes_mean = 1 / 2, m_cal_score = 1 / 4, m_sharp_score = 3 / 4, m_sos_score = 1 / 2,
       m_lead_score = 1 / 2, m_brier_mean = 1 / 5\<rparr>] \<lparr>params = []\<rparr> example_chain
     = [0, 23 / 80, 0, 0, 0]"
  by (simp add: scores_vector_def skill_table_def scatter_scores_def Let_def cfg_get_def
      clip_def zero_normalizer_def example_chain_def)
     (simp add: eval_nat_numeral)

lemma example_raw:
  "raw_weight_vector [0, 23 / 80, 0, 0, 0] (9 / 10) example_chain = Some [9 / 10, 1 / 10, 0, 0, 0]"
  by (simp add: raw_weight_vector_def l1_norm_def Let_def example_chain_def)

lemma example_process:
  "process_weights [9 / 10, 1 / 10, 0, 0, 0] example_chain r =
     r\<lparr>raw_weights := [(0, 9 / 10), (1, 1 / 10)], uids := [0, 1],
       uint16_weights := [65535, 65535]\<rparr>"
proof -
  have u: "[0..<5] = [0, 1, 2, 3, 4]" by (simp add: eval_nat_numeral upt_rec)
  have rnd: "py_round 65535 = 65535" using py_round_int [of 65535] by simp
  show ?thesis
    by (simp add: process_weights_def Let_def example_chain_def u normalize_max_weight_def
        convert_to_uint16_def U16_MAX_def rnd)
qed

lemma epoch2_checkpoint_fields:
  "accumulators (epoch2_checkpoint r) = [example_entry]"
  "chain_params (epoch2_checkpoint r) = None"
  "scoring_config (epoch2_checkpoint r) = \<lparr>params = []\<rparr>"
  "checkpoint_epoch (cp_manifest (epoch2_checkpoint r)) = 2"
  "recompute_record (cp_manifest (epoch2_checkpoint r)) = Some r"
  by (simp_all add: epoch2_checkpoint_def example_checkpoint_def)

lemma example_weights:
  "compute_weights zero_normalizer zero_normalizer
     (map (\<lambda>acc. snd (from_accumulator acc)) [example_entry]) \<lparr>params = []\<rparr> example_chain =
   Inr (process_weights [9 / 10, 1 / 10, 0, 0, 0] example_chain
     (empty_result
        \<lparr>skill_scores := [(1, 23 / 80)],
         dimension_scores :=
           [(1, [(''forecast_dim'', 5 / 8), (''skill_dim'', 0), (''econ_dim'', 3 / 20),
                 (''info_dim'', 1 / 2)])]\<rparr>))"
proof -
  have n: "\<not> n_neurons example_chain < 0" by (simp add: example_chain_def)
  have t: "skill_table zero_normalizer zero_normalizer
      [\<lparr>m_uid = 1, m_hotkey = ''hk1'', m_fq_raw = 3 / 4, m_pss_mean = 0, m_es_adj = 1 / 8,
        m_mes_mean = 1 / 2, m_cal_score = 1 / 4, m_sharp_score = 3 / 4, m_sos_score = 1 / 2,
        m_lead_score = 1 / 2, m_brier_mean = 1 / 5\<rparr>] \<lparr>params = []\<rparr> =
      [(23 / 80, 5 / 8, 0, 3 / 20, 1 / 2)]"
    by (simp add: skill_table_def Let_def cfg_get_def clip_def zero_normalizer_def)
  have b: "cfg_get \<lparr>params = []\<rparr> ''weight_emission'' ''burn_rate'' 0.9 = 9 / 10"
    by (simp add: cfg_get_def)
  show ?thesis
    unfolding example_metrics
    by (simp add: compute_weights_def Let_def n b example_scores example_raw)
       (simp add: t)
qed

text \<open>
  C6 at a failing input. The example auditor is at epoch 1 and recorded an epoch bump at time
  1000, so that at time 2000 its daily limit of one bump is reached. The store offers a
  valid, correctly signed checkpoint of epoch 2 with a valid recompute record. The epoch
  change is paused, and yet the tick goes on: \<open>_cycle\<close> hands the checkpoint to the plugin
  dispatcher, and the weight verification plugin computes a weight vector from it, the uids
  0 and 1 with weight 65535 each, which it submits to the chain when it matches the
  primary's. Weights are produced on the paused tick.
\<close>

theorem paused_tick_produces_weights:
  "checkpoint_epoch (cp_manifest (epoch2_checkpoint example_record)) \<noteq> epoch example_sync \<and>
   valid_recompute_record example_record \<and>
   max_epoch_bumps_per_day example_sync \<le> bumps_within 2000 86400 example_sync \<and>
   status (fst (handle_epoch_change 2000 (epoch2_checkpoint example_record) example_sync))
     = ''paused'' \<and>
   fst (cycle toy_hash toy_verify ''5Primary'' 2000
          (example_store (epoch2_checkpoint example_record)) example_sync) =
     Some \<lparr>ctx_checkpoint = epoch2_checkpoint example_record, ctx_deltas = [],
           accumulator_state = accumulator example_sync\<rparr> \<and>
   (\<exists>r. on_cycle_weights zero_normalizer zero_normalizer example_chain
          \<lparr>ctx_checkpoint = epoch2_checkpoint example_record, ctx_deltas = [],
           accumulator_state = accumulator example_sync\<rparr> = Some (Inr r) \<and>
        uids r = [0, 1] \<and> uint16_weights r = [65535, 65535])"
proof -
  let ?cp = "epoch2_checkpoint example_record"
  have latest: "store_get_latest_checkpoint (example_store ?cp) = Some ?cp"
    by (simp add: example_store_def)
  have differs: "checkpoint_epoch (cp_manifest ?cp) \<noteq> epoch example_sync"
    by (simp add: epoch2_checkpoint_fields example_sync_def)
  have rec: "valid_recompute_record example_record"
    by (simp add: valid_recompute_record_def example_record_def)
  then have detail: "\<forall>r. recompute_record (cp_manifest ?cp) = Some r \<longrightarrow> valid_recompute_record r"
    by (simp add: epoch2_checkpoint_fields)
  have lim: "max_epoch_bumps_per_day example_sync \<le> bumps_within 2000 86400 example_sync"
    by (simp add: example_sync_bumps) (simp add: example_sync_def)
  then have over: "max_epoch_bumps_per_day example_sync \<le> bumps_within 2000 86400 example_sync \<or>
      max_epoch_bumps_per_week example_sync \<le> bumps_within 2000 604800 example_sync" ..
  have paused: "status (fst (handle_epoch_change 2000 ?cp example_sync)) = ''paused''"
    using handle_epoch_change_paused [OF detail over] by simp
  have dispatched: "fst (cycle toy_hash toy_verify ''5Primary'' 2000 (example_store ?cp)
      example_sync) =
      Some \<lparr>ctx_checkpoint = ?cp, ctx_deltas = [], accumulator_state = accumulator example_sync\<rparr>"
    by (rule paused_cycle_dispatches [OF latest differs detail over epoch2_valid])
  have weights: "\<exists>r. on_cycle_weights zero_normalizer zero_normalizer example_chain
      \<lparr>ctx_checkpoint = ?cp, ctx_deltas = [], accumulator_state = accumulator example_sync\<rparr>
        = Some (Inr r) \<and> uids r = [0, 1] \<and> uint16_weights r = [65535, 65535]"
    using example_weights
    by (simp add: on_cycle_weights_def Let_def epoch2_checkpoint_fields example_process)
  from differs rec lim paused dispatched weights show ?thesis by blast
qed

end
